theory Spec2Isabelle
  imports Complex_Main "HOL-Library.Word" "HOL-Library.AList"
begin

section \<open>Data model\<close>

subsection \<open>Values, records, filters and effect tallies of the ORM layer\<close>

text \<open>
  The ORM package (\<^verbatim>\<open>simpleorm\<close>) is an external collaborator; only the shapes the
  handlers touch are declared. A Go \<^verbatim>\<open>interface{}\<close> value is a small tagged union whose
  zero value is \<open>VNil\<close>.
\<close>

datatype dbvalue = VNil | VInt int | VStr string | VBool bool

record DBRecord =
  TableName :: string
  Data :: "(string \<times> dbvalue) list"

text \<open>
  \<^verbatim>\<open>orm.Condition\<close>: a leaf \<open>(field, operator, value)\<close> or a composite with nested
  filters, ordering, grouping and pagination. The selector for \<^verbatim>\<open>Field\<close> is
  \<open>Field_c\<close> (the plain name is a constant of the relation library).
\<close>

datatype Condition = Condition
  (Field_c: string) (Operator: string) (Value: dbvalue) (Nested: "Condition list")
  (OrderBy: "string list") (GroupBy: "string list") (Limit: int) (Offset: int)

datatype db_error = ErrSQLNoRows | ErrDriver string

text \<open>\<^verbatim>\<open>orm.BasicSQLResult\<close>: the per-statement effect tally.\<close>

record BasicSQLResult =
  Error :: "db_error option"
  RowsAffected :: int
  LastInsertID :: int

subsection \<open>The driver contract\<close>

text \<open>
  \<^verbatim>\<open>SureSQLDB\<close> is the driver interface. A driver instance is a record of its
  operations; \<open>driver_id\<close> names the instance, \<open>Close\<close> is what its \<^verbatim>\<open>Close()\<close>
  returns (\<open>None\<close> for a nil error) and \<open>IsConnected\<close> what \<^verbatim>\<open>IsConnected()\<close> reports.
\<close>

record SureSQLDB =
  driver_id :: nat
  Close :: "string option"
  IsConnected :: bool
  SelectOne :: "string \<Rightarrow> db_error + DBRecord"
  SelectMany :: "string \<Rightarrow> db_error + DBRecord list"
  SelectOneWithCondition :: "string \<Rightarrow> Condition \<Rightarrow> db_error + DBRecord"
  SelectManyWithCondition :: "string \<Rightarrow> Condition \<Rightarrow> db_error + DBRecord list"
  InsertOneDBRecord :: "DBRecord \<Rightarrow> bool \<Rightarrow> BasicSQLResult"
  InsertManyDBRecordsSameTable :: "DBRecord list \<Rightarrow> bool \<Rightarrow> db_error + BasicSQLResult list"
  InsertManyDBRecords :: "DBRecord list \<Rightarrow> bool \<Rightarrow> db_error + BasicSQLResult list"

text \<open>The driver operations a handler invokes, in order, are returned as a trace.\<close>

datatype driver_call =
    CallSelectOne string
  | CallSelectMany string
  | CallSelectOneWithCondition string Condition
  | CallSelectManyWithCondition string Condition
  | CallInsertOneDBRecord DBRecord bool
  | CallInsertManyDBRecordsSameTable "DBRecord list" bool
  | CallInsertManyDBRecords "DBRecord list" bool

subsection \<open>TTL map\<close>

text \<open>
  Modelled from the spec: the TTL map (\<^verbatim>\<open>medattlmap.TTLMap\<close>) is an external library
  whose source is not part of the repository. Section 4.1 of the specification gives its
  contract: \<open>put(k, ttlOverride, v)\<close> stores \<open>v\<close> with an absolute expiry
  (\<open>ttlOverride = 0\<close> uses the map's default TTL), \<open>get\<close> never returns an entry past
  its expiry, \<open>delete\<close> removes the key and \<open>len\<close> counts the stored entries. Instants
  and durations are integers (nanoseconds, as \<^verbatim>\<open>time.Duration\<close>).
\<close>

record 'v TTLMap =
  defaultTTL :: int
  items :: "(string \<times> ('v \<times> int)) list"

definition NewTTLMap :: "int \<Rightarrow> 'v TTLMap" where
  "NewTTLMap ttl = \<lparr>defaultTTL = ttl, items = []\<rparr>"

definition Put :: "int \<Rightarrow> string \<Rightarrow> int \<Rightarrow> 'v \<Rightarrow> 'v TTLMap \<Rightarrow> 'v TTLMap" where
  "Put now k ttl v m =
     m\<lparr>items := AList.update k (v, now + (if ttl = 0 then defaultTTL m else ttl)) (items m)\<rparr>"

definition Get :: "int \<Rightarrow> string \<Rightarrow> 'v TTLMap \<Rightarrow> 'v option" where
  "Get now k m =
     (case map_of (items m) k of
        None \<Rightarrow> None
      | Some (v, expiry) \<Rightarrow> if now \<le> expiry then Some v else None)"

definition Delete :: "string \<Rightarrow> 'v TTLMap \<Rightarrow> 'v TTLMap" where
  "Delete k m = m\<lparr>items := AList.delete k (items m)\<rparr>"

definition Len :: "'v TTLMap \<Rightarrow> int" where
  "Len m = int (length (items m))"

subsection \<open>Requests, responses, tokens, configuration and the node\<close>

record QueryRequest =
  Table :: string
  Condition_q :: "Condition option"
  SingleRow :: bool

record QueryResponse =
  Records :: "DBRecord list"
  Count :: int

record InsertRequest =
  Records_i :: "DBRecord list"
  Queue :: bool
  SameTable :: bool

record SQLResponse =
  Results :: "BasicSQLResult list"
  RowsAffected_r :: int

text \<open>
  \<^verbatim>\<open>TokenTable\<close>. \<^verbatim>\<open>ID\<close> and \<^verbatim>\<open>CreatedAt\<close> are never written by the code and are
  left out.
\<close>

record TokenTable =
  UserID :: int
  Token :: string
  Refresh :: string
  TokenExpiresAt :: int
  RefreshExpiresAt :: int
  UserName :: string

text \<open>
  The fields of \<^verbatim>\<open>ConfigTable\<close> that the session protocol reads: the token TTLs
  resolved through the configuration layers, and the pepper of the password hash.
\<close>

record ConfigTable =
  TokenExp :: int
  RefreshExp :: int
  TTLTicker :: int
  APIKey :: string
  ClientID :: string

text \<open>
  \<^verbatim>\<open>SureSQLNode\<close>, after \<^verbatim>\<open>ConnectInternal\<close> has allocated the pool
  (\<^verbatim>\<open>DBConnections\<close> is never nil from then on).
\<close>

record SureSQLNode =
  Config :: ConfigTable
  InternalConnection :: SureSQLDB
  DBConnections :: "SureSQLDB TTLMap"
  MaxPool :: int
  IsPoolEnabled :: bool

datatype node_error = ErrNoDBConnection

definition IsPoolAvailable :: "SureSQLNode \<Rightarrow> bool" where
  "IsPoolAvailable n = (IsPoolEnabled n \<and> Len (DBConnections n) < MaxPool n)"

definition GetDBConnectionByToken :: "SureSQLNode \<Rightarrow> int \<Rightarrow> string \<Rightarrow> node_error + SureSQLDB" where
  "GetDBConnectionByToken n now token =
     (if IsPoolEnabled n then
        (case Get now token (DBConnections n) of
           None \<Rightarrow> Inl ErrNoDBConnection
         | Some db \<Rightarrow> Inr db)
      else Inr (InternalConnection n))"

section \<open>Validator\<close>

definition MaxTableNameLength :: nat where
  "MaxTableNameLength = 64"

definition is_letter :: "char \<Rightarrow> bool" where
  "is_letter c = (c \<in> set ''abcdefghijklmnopqrstuvwxyzABCDEFGHIJKLMNOPQRSTUVWXYZ'')"

definition is_digit :: "char \<Rightarrow> bool" where
  "is_digit c = (c \<in> set ''0123456789'')"

text \<open>\<^verbatim>\<open>tableNameRegex\<close>: \<^verbatim>\<open>^[a-zA-Z_][a-zA-Z0-9_]*$\<close>.\<close>

definition tableNameRegex :: "string \<Rightarrow> bool" where
  "tableNameRegex name =
     (case name of
        [] \<Rightarrow> False
      | c # cs \<Rightarrow> (is_letter c \<or> c = CHR ''_'')
                  \<and> list_all (\<lambda>d. is_letter d \<or> is_digit d \<or> d = CHR ''_'') cs)"

definition HasPrefix :: "string \<Rightarrow> string \<Rightarrow> bool" where
  "HasPrefix s p = (take (length p) s = p)"

definition ValidateTableName :: "string \<Rightarrow> bool \<Rightarrow> string option" where
  "ValidateTableName name allowInternal =
     (if name = [] then Some ''table name cannot be empty''
      else if length name > MaxTableNameLength then
        Some ''table name exceeds maximum length of 64 characters''
      else if \<not> tableNameRegex name then Some ''invalid table name format''
      else if \<not> allowInternal \<and> HasPrefix name ''_'' then
        Some ''access to internal tables is not allowed''
      else None)"

section \<open>SQL dispatcher\<close>

text \<open>
  What a handler leaves behind: the HTTP status and user-visible message, the operation
  label appended to \<^verbatim>\<open>state.Label\<close>, the driver operations invoked, and the response
  payload on success. The measured execution time of a response and the record count
  printed into the success message of an insert are left out.
\<close>

record 'a outcome =
  Status :: nat
  Message :: string
  Label :: string
  calls :: "driver_call list"
  payload :: "'a option"

definition failure :: "nat \<Rightarrow> string \<Rightarrow> string \<Rightarrow> driver_call list \<Rightarrow> 'a outcome" where
  "failure st msg lbl cs = \<lparr>Status = st, Message = msg, Label = lbl, calls = cs, payload = None\<rparr>"

definition success :: "string \<Rightarrow> string \<Rightarrow> driver_call list \<Rightarrow> 'a \<Rightarrow> 'a outcome" where
  "success msg lbl cs d = \<lparr>Status = 200, Message = msg, Label = lbl, calls = cs, payload = Some d\<rparr>"

subsection \<open>HandleQuery\<close>

definition isEmptyCondition :: "Condition \<Rightarrow> bool" where
  "isEmptyCondition c =
     (Field_c c = [] \<and> length (Nested c) = 0 \<and>
      length (OrderBy c) = 0 \<and> length (GroupBy c) = 0 \<and>
      Limit c = 0 \<and> Offset c = 0)"

text \<open>
  The specification's notion of an empty filter, in its own words: all fields
  zero-valued.
\<close>

definition all_fields_zero :: "Condition \<Rightarrow> bool" where
  "all_fields_zero c = (c = Condition [] [] VNil [] [] [] 0 0)"

definition hasCondition :: "QueryRequest \<Rightarrow> bool" where
  "hasCondition q =
     (case Condition_q q of None \<Rightarrow> False | Some c \<Rightarrow> \<not> isEmptyCondition c)"

text \<open>
  The tail of each branch for a single-row operation: \<^verbatim>\<open>ErrSQLNoRows\<close> gives the empty
  response, any other error a 500, a record the one-element response.
\<close>

definition finish_one ::
  "string \<Rightarrow> driver_call \<Rightarrow> db_error + DBRecord \<Rightarrow> QueryResponse outcome" where
  "finish_one lbl c r =
     (case r of
        Inl e \<Rightarrow>
          if e = ErrSQLNoRows then
            success ''Query executed successfully'' lbl [c] \<lparr>Records = [], Count = 0\<rparr>
          else failure 500 ''Failed to execute query'' lbl [c]
      | Inr record \<Rightarrow>
          success ''Query executed successfully'' lbl [c] \<lparr>Records = [] @ [record], Count = 1\<rparr>)"

definition finish_many ::
  "string \<Rightarrow> driver_call \<Rightarrow> db_error + DBRecord list \<Rightarrow> QueryResponse outcome" where
  "finish_many lbl c r =
     (case r of
        Inl e \<Rightarrow>
          if e = ErrSQLNoRows then
            success ''Query executed successfully'' lbl [c] \<lparr>Records = [], Count = 0\<rparr>
          else failure 500 ''Failed to execute query'' lbl [c]
      | Inr records \<Rightarrow>
          success ''Query executed successfully'' lbl [c]
            \<lparr>Records = records, Count = int (length records)\<rparr>)"

text \<open>
  \<^verbatim>\<open>HandleQuery\<close>. \<open>tok\<close> is \<^verbatim>\<open>state.Token\<close> (set by the token middleware), \<open>body\<close>
  the result of \<^verbatim>\<open>BindJSON\<close> (\<open>None\<close> when the body does not parse).
\<close>

definition HandleQuery ::
  "SureSQLNode \<Rightarrow> int \<Rightarrow> TokenTable option \<Rightarrow> QueryRequest option \<Rightarrow> QueryResponse outcome" where
  "HandleQuery node now tok body =
     (case tok of
        None \<Rightarrow> failure 401 ''Cannot retrieve token from context'' ''/query/'' []
      | Some t \<Rightarrow>
     (case body of
        None \<Rightarrow> failure 400 ''Invalid request format'' ''/query/'' []
      | Some queryReq \<Rightarrow>
     if Table queryReq = [] then failure 400 ''Table name is required'' ''/query/'' []
     else if ValidateTableName (Table queryReq) False \<noteq> None then
       failure 400 ''Invalid table name'' ''/query/'' []
     else
     (case GetDBConnectionByToken node now (Token t) of
        Inl err \<Rightarrow> failure 500 ''Cannot get DB connection'' ''/query/'' []
      | Inr userDB \<Rightarrow>
     if SingleRow queryReq then
       (if hasCondition queryReq then
          finish_one (''/query/'' @ ''SelectOneWithCondition'')
            (CallSelectOneWithCondition (Table queryReq) (the (Condition_q queryReq)))
            (SelectOneWithCondition userDB (Table queryReq) (the (Condition_q queryReq)))
        else
          finish_one (''/query/'' @ ''SelectOne'')
            (CallSelectOne (Table queryReq))
            (SelectOne userDB (Table queryReq)))
     else
       (if hasCondition queryReq then
          finish_many (''/query/'' @ ''SelectManyWithCondition'')
            (CallSelectManyWithCondition (Table queryReq) (the (Condition_q queryReq)))
            (SelectManyWithCondition userDB (Table queryReq) (the (Condition_q queryReq)))
        else
          finish_many (''/query/'' @ ''SelectMany'')
            (CallSelectMany (Table queryReq))
            (SelectMany userDB (Table queryReq))))))"

subsection \<open>HandleInsert\<close>

definition HandleInsert ::
  "SureSQLNode \<Rightarrow> int \<Rightarrow> TokenTable option \<Rightarrow> InsertRequest option \<Rightarrow> SQLResponse outcome" where
  "HandleInsert node now tok body =
     (case tok of
        None \<Rightarrow> failure 401 ''Cannot retrieve token from context'' ''/insert/'' []
      | Some t \<Rightarrow>
     (case body of
        None \<Rightarrow> failure 400 ''Invalid request format'' ''/insert/'' []
      | Some insertReq \<Rightarrow>
     (let numRecs = int (length (Records_i insertReq)) in
     if numRecs = 0 then failure 400 ''No records provided'' ''/insert/'' []
     else
     (case GetDBConnectionByToken node now (Token t) of
        Inl err \<Rightarrow> failure 500 ''Cannot get DB connection'' ''/insert/'' []
      | Inr userDB \<Rightarrow>
     if numRecs = 1 then
       (let c = CallInsertOneDBRecord (Records_i insertReq ! 0) (Queue insertReq);
            result = InsertOneDBRecord userDB (Records_i insertReq ! 0) (Queue insertReq)
        in if Error result \<noteq> None then
             failure 500 ''Failed to insert record'' (''/insert/'' @ ''InsertOneDBRecord'') [c]
           else
             success ''Successfully inserted records'' (''/insert/'' @ ''InsertOneDBRecord'') [c]
               \<lparr>Results = [] @ [result], RowsAffected_r = numRecs\<rparr>)
     else if SameTable insertReq then
       (let c = CallInsertManyDBRecordsSameTable (Records_i insertReq) (Queue insertReq)
        in case InsertManyDBRecordsSameTable userDB (Records_i insertReq) (Queue insertReq) of
             Inl err \<Rightarrow>
               failure 500 ''Failed to insert multiple records of same table''
                 (''/insert/'' @ ''InsertManyDBRecordsSameTable'') [c]
           | Inr results \<Rightarrow>
               success ''Successfully inserted records''
                 (''/insert/'' @ ''InsertManyDBRecordsSameTable'') [c]
                 \<lparr>Results = results, RowsAffected_r = numRecs\<rparr>)
     else
       (let c = CallInsertManyDBRecords (Records_i insertReq) (Queue insertReq)
        in case InsertManyDBRecords userDB (Records_i insertReq) (Queue insertReq) of
             Inl err \<Rightarrow>
               failure 500 ''Failed to insert multiple records''
                 (''/insert/'' @ ''InsertManyDBRecords'') [c]
           | Inr results \<Rightarrow>
               success ''Successfully inserted records''
                 (''/insert/'' @ ''InsertManyDBRecords'') [c]
                 \<lparr>Results = results, RowsAffected_r = int (length results)\<rparr>)))))"

subsection \<open>The response contract\<close>

text \<open>
  The specification's response contract for the dispatcher (section 4.9), against which
  the handlers are compared. A row-returning operation produces the records and their
  count; \<open>no-rows\<close> is not a failure and maps to an empty result set; every other driver
  error is surfaced as a dispatcher error. \<open>answers_row out c r\<close> says that the
  outcome \<open>out\<close> stems from the one driver call \<open>c\<close> that returned \<open>r\<close>.
\<close>

definition answers_row :: "QueryResponse outcome \<Rightarrow> driver_call \<Rightarrow> db_error + DBRecord \<Rightarrow> bool" where
  "answers_row out c r =
     (calls out = [c] \<and>
      (case r of
         Inr row \<Rightarrow> Status out = 200 \<and> payload out = Some \<lparr>Records = [row], Count = 1\<rparr>
       | Inl e \<Rightarrow>
           if e = ErrSQLNoRows then
             Status out = 200 \<and> payload out = Some \<lparr>Records = [], Count = 0\<rparr>
           else Status out = 500 \<and> payload out = None))"

definition answers_rows ::
  "QueryResponse outcome \<Rightarrow> driver_call \<Rightarrow> db_error + DBRecord list \<Rightarrow> bool" where
  "answers_rows out c r =
     (calls out = [c] \<and>
      (case r of
         Inr rows \<Rightarrow>
           Status out = 200 \<and> payload out = Some \<lparr>Records = rows, Count = int (length rows)\<rparr>
       | Inl e \<Rightarrow>
           if e = ErrSQLNoRows then
             Status out = 200 \<and> payload out = Some \<lparr>Records = [], Count = 0\<rparr>
           else Status out = 500 \<and> payload out = None))"

text \<open>
  An effect-producing operation produces the tallies and a rows-affected number
  \<open>n\<close>; a batch error is surfaced.
\<close>

definition answers_effect ::
  "SQLResponse outcome \<Rightarrow> driver_call \<Rightarrow> db_error + BasicSQLResult list \<Rightarrow> int \<Rightarrow> bool" where
  "answers_effect out c r n =
     (calls out = [c] \<and>
      (case r of
         Inr results \<Rightarrow>
           Status out = 200 \<and> payload out = Some \<lparr>Results = results, RowsAffected_r = n\<rparr>
       | Inl e \<Rightarrow> Status out = 500 \<and> payload out = None))"

text \<open>
  A filter is given when the condition is present and its field name, its nested,
  order-by or group-by list, its limit or its offset is non-zero.
\<close>

definition filter_given :: "Condition option \<Rightarrow> bool" where
  "filter_given co =
     (case co of
        None \<Rightarrow> False
      | Some c \<Rightarrow> Field_c c \<noteq> [] \<or> Nested c \<noteq> [] \<or> OrderBy c \<noteq> [] \<or> GroupBy c \<noteq> []
                  \<or> Limit c \<noteq> 0 \<or> Offset c \<noteq> 0)"

section \<open>Metrics\<close>

text \<open>
  \<^verbatim>\<open>NodeMetrics\<close>: the counters are unsigned 64-bit and are bumped with
  \<^verbatim>\<open>atomic.AddUint64\<close>, which wraps. The gauges recomputed at snapshot time are
  functions of the node (\<open>ConnectionPoolUsagePct\<close> below); the latency average and
  the start time play no part here and are left out.
\<close>

record NodeMetrics =
  ConnectionsCreated :: "64 word"
  ConnectionsClosed :: "64 word"
  PoolExhaustionCount :: "64 word"
  LastPoolExhaustion :: int
  TokensCreated :: "64 word"
  TokensExpired :: "64 word"
  RefreshTokensUsed :: "64 word"
  TotalRequests :: "64 word"
  FailedRequests :: "64 word"
  AuthenticationAttempts :: "64 word"
  AuthenticationFailures :: "64 word"
  QueriesExecuted :: "64 word"
  QueriesSuccess :: "64 word"
  QueriesFailed :: "64 word"

definition InitMetrics :: NodeMetrics where
  "InitMetrics = \<lparr>ConnectionsCreated = 0, ConnectionsClosed = 0, PoolExhaustionCount = 0,
     LastPoolExhaustion = 0, TokensCreated = 0, TokensExpired = 0, RefreshTokensUsed = 0,
     TotalRequests = 0, FailedRequests = 0, AuthenticationAttempts = 0,
     AuthenticationFailures = 0, QueriesExecuted = 0, QueriesSuccess = 0, QueriesFailed = 0\<rparr>"

definition RecordConnectionCreated :: "NodeMetrics \<Rightarrow> NodeMetrics" where
  "RecordConnectionCreated m = m\<lparr>ConnectionsCreated := ConnectionsCreated m + 1\<rparr>"

definition RecordConnectionClosed :: "NodeMetrics \<Rightarrow> NodeMetrics" where
  "RecordConnectionClosed m = m\<lparr>ConnectionsClosed := ConnectionsClosed m + 1\<rparr>"

definition RecordPoolExhaustion :: "int \<Rightarrow> NodeMetrics \<Rightarrow> NodeMetrics" where
  "RecordPoolExhaustion now m =
     m\<lparr>PoolExhaustionCount := PoolExhaustionCount m + 1, LastPoolExhaustion := now\<rparr>"

definition RecordTokenCreated :: "NodeMetrics \<Rightarrow> NodeMetrics" where
  "RecordTokenCreated m = m\<lparr>TokensCreated := TokensCreated m + 1\<rparr>"

definition RecordRefreshTokenUsed :: "NodeMetrics \<Rightarrow> NodeMetrics" where
  "RecordRefreshTokenUsed m = m\<lparr>RefreshTokensUsed := RefreshTokensUsed m + 1\<rparr>"

definition RecordAuthentication :: "bool \<Rightarrow> NodeMetrics \<Rightarrow> NodeMetrics" where
  "RecordAuthentication ok m =
     (let m1 = m\<lparr>AuthenticationAttempts := AuthenticationAttempts m + 1\<rparr>
      in if \<not> ok then m1\<lparr>AuthenticationFailures := AuthenticationFailures m1 + 1\<rparr> else m1)"

text \<open>\<^verbatim>\<open>RecordQuery\<close>, without the moving average of the latency.\<close>

definition RecordQuery :: "bool \<Rightarrow> NodeMetrics \<Rightarrow> NodeMetrics" where
  "RecordQuery ok m =
     (let m1 = m\<lparr>QueriesExecuted := QueriesExecuted m + 1\<rparr>
      in if ok then m1\<lparr>QueriesSuccess := QueriesSuccess m1 + 1\<rparr>
         else m1\<lparr>QueriesFailed := QueriesFailed m1 + 1\<rparr>)"

section \<open>Token store\<close>

definition Minute :: int where
  "Minute = 60 * 1000000000"

definition DEFAULT_TOKEN_EXPIRES_MINUTES :: int where
  "DEFAULT_TOKEN_EXPIRES_MINUTES = 24 * 60 * Minute"

definition DEFAULT_REFRESH_EXPIRES_MINUTES :: int where
  "DEFAULT_REFRESH_EXPIRES_MINUTES = 48 * 60 * Minute"

record TokenStoreStruct =
  TokenMap :: "TokenTable TTLMap"
  RefreshTokenMap :: "TokenTable TTLMap"

definition NewTokenStore :: "int \<Rightarrow> int \<Rightarrow> TokenStoreStruct" where
  "NewTokenStore texp rexp = \<lparr>TokenMap = NewTTLMap texp, RefreshTokenMap = NewTTLMap rexp\<rparr>"

definition SaveToken :: "int \<Rightarrow> TokenTable \<Rightarrow> TokenStoreStruct \<Rightarrow> TokenStoreStruct" where
  "SaveToken now token t =
     t\<lparr>TokenMap := Put now (Token token) 0 token (TokenMap t),
       RefreshTokenMap := Put now (Refresh token) 0 token (RefreshTokenMap t)\<rparr>"

definition TokenExist :: "int \<Rightarrow> string \<Rightarrow> TokenStoreStruct \<Rightarrow> TokenTable option" where
  "TokenExist now token t = Get now token (TokenMap t)"

definition RefreshTokenExist :: "int \<Rightarrow> string \<Rightarrow> TokenStoreStruct \<Rightarrow> TokenTable option" where
  "RefreshTokenExist now token t = Get now token (RefreshTokenMap t)"

section \<open>Session protocol\<close>

text \<open>
  The process-wide state the session handlers read and write: the node, the token store,
  the metrics, and the log of driver instances on which \<^verbatim>\<open>Close()\<close> has been called.
  One handler invocation reads the clock as the single instant \<open>now\<close>.
\<close>

record server =
  CurrentNode :: SureSQLNode
  TokenStore :: TokenStoreStruct
  Metrics :: NodeMetrics
  closed_drivers :: "nat list"

record UserTable =
  ID :: int
  Username :: string
  Password :: string
  RoleName :: string

definition MaxUsernameLength :: nat where
  "MaxUsernameLength = 50"

text \<open>\<^verbatim>\<open>usernameRegex\<close>: \<^verbatim>\<open>^[a-zA-Z0-9_.-]+$\<close>.\<close>

definition usernameRegex :: "string \<Rightarrow> bool" where
  "usernameRegex u =
     (u \<noteq> [] \<and> list_all (\<lambda>d. is_letter d \<or> is_digit d \<or> d \<in> set ''_.-'') u)"

definition ValidateUsername :: "string \<Rightarrow> string option" where
  "ValidateUsername username =
     (if username = [] then Some ''username cannot be empty''
      else if length username > MaxUsernameLength then
        Some ''username must not exceed 50 characters''
      else if \<not> usernameRegex username then Some ''username contains invalid characters''
      else None)"

text \<open>
  \<^verbatim>\<open>object.MapToStructSlowDB[UserTable]\<close> is an external helper: it fills each field
  from the column named by its \<^verbatim>\<open>db\<close> tag.
\<close>

definition MapToStructSlowDB :: "(string \<times> dbvalue) list \<Rightarrow> UserTable" where
  "MapToStructSlowDB d =
     \<lparr>ID = (case map_of d ''id'' of Some (VInt i) \<Rightarrow> i | _ \<Rightarrow> 0),
      Username = (case map_of d ''username'' of Some (VStr x) \<Rightarrow> x | _ \<Rightarrow> []),
      Password = (case map_of d ''password'' of Some (VStr x) \<Rightarrow> x | _ \<Rightarrow> []),
      RoleName = (case map_of d ''role_name'' of Some (VStr x) \<Rightarrow> x | _ \<Rightarrow> [])\<rparr>"

definition username_condition :: "string \<Rightarrow> Condition" where
  "username_condition username = Condition ''username'' ''='' (VStr username) [] [] [] 0 0"

definition userNameExist :: "SureSQLNode \<Rightarrow> string \<Rightarrow> db_error + UserTable" where
  "userNameExist node username =
     (case SelectOneWithCondition (InternalConnection node) ''_users''
             (username_condition username) of
        Inl err \<Rightarrow> Inl err
      | Inr userRecord \<Rightarrow> Inr (MapToStructSlowDB (Data userRecord)))"

text \<open>
  \<^verbatim>\<open>encryption.HashPin\<close> is an external primitive and is a parameter: it maps the
  password and the pepper (API key, client id) to a hash or an error.
\<close>

type_synonym hash_pin = "string \<Rightarrow> string \<Rightarrow> string \<Rightarrow> string + string"

definition passwordMatch :: "hash_pin \<Rightarrow> SureSQLNode \<Rightarrow> UserTable \<Rightarrow> string \<Rightarrow> string option" where
  "passwordMatch HashPin node user pass =
     (case HashPin pass (APIKey (Config node)) (ClientID (Config node)) of
        Inl err \<Rightarrow> Some err
      | Inr encr \<Rightarrow>
          if Password user = encr then None
          else Some (''password mismatch for user '' @ Username user))"

text \<open>
  \<^verbatim>\<open>createNewTokenResponse\<close>. The two strings minted by
  \<^verbatim>\<open>encryption.NewRandomTokenIterate\<close> are inputs. The user id is kept as the integer
  (the code prints it to decimal here and parses it back at refresh).
\<close>

definition createNewTokenResponse ::
  "int \<Rightarrow> string \<Rightarrow> string \<Rightarrow> UserTable \<Rightarrow> server \<Rightarrow> TokenTable \<times> server" where
  "createNewTokenResponse now newToken newRefresh user s =
     (let token = \<lparr>UserID = ID user, Token = newToken, Refresh = newRefresh,
                    TokenExpiresAt = now + DEFAULT_TOKEN_EXPIRES_MINUTES,
                    RefreshExpiresAt = now + DEFAULT_REFRESH_EXPIRES_MINUTES,
                    UserName = Username user\<rparr>
      in (token, s\<lparr>TokenStore := SaveToken now token (TokenStore s),
                    Metrics := RecordTokenCreated (Metrics s)\<rparr>))"

definition pool_put :: "int \<Rightarrow> string \<Rightarrow> SureSQLDB \<Rightarrow> server \<Rightarrow> server" where
  "pool_put now token db s =
     s\<lparr>CurrentNode := (CurrentNode s)
         \<lparr>DBConnections := Put now token 0 db (DBConnections (CurrentNode s))\<rparr>\<rparr>"

definition pool_delete :: "string \<Rightarrow> server \<Rightarrow> server" where
  "pool_delete token s =
     s\<lparr>CurrentNode := (CurrentNode s)
         \<lparr>DBConnections := Delete token (DBConnections (CurrentNode s))\<rparr>\<rparr>"

text \<open>
  \<^verbatim>\<open>HandleConnect\<close>. \<open>opened\<close> is what \<^verbatim>\<open>NewDatabase(configCopy)\<close> returns when it
  is reached; \<open>body\<close> is the parsed request (only username and password are used).
\<close>

definition HandleConnect ::
  "hash_pin \<Rightarrow> int \<Rightarrow> string \<Rightarrow> string \<Rightarrow> string + SureSQLDB \<Rightarrow> UserTable option \<Rightarrow> server
     \<Rightarrow> TokenTable outcome \<times> server" where
  "HandleConnect HashPin now newToken newRefresh opened body s =
     (case body of
        None \<Rightarrow> (failure 0 ''invalid requesst format'' ''/connect'' [], s)
      | Some connectReq \<Rightarrow>
     if ValidateUsername (Username connectReq) \<noteq> None then
       (failure 400 ''Invalid username'' ''/connect'' [], s)
     else
     (let lookup = [CallSelectOneWithCondition ''_users'' (username_condition (Username connectReq))]
      in case userNameExist (CurrentNode s) (Username connectReq) of
        Inl err \<Rightarrow> (failure 401 ''Invalid credentials'' ''/connect'' lookup, s)
      | Inr user \<Rightarrow>
     if passwordMatch HashPin (CurrentNode s) user (Password connectReq) \<noteq> None then
       (failure 401 ''Invalid credentials'' ''/connect'' lookup, s)
     else
     (case opened of
        Inl err \<Rightarrow>
          (failure 500 ''Failed to create database connection'' ''/connect'' lookup,
           s\<lparr>Metrics := RecordAuthentication False (Metrics s)\<rparr>)
      | Inr newDB \<Rightarrow>
     (case createNewTokenResponse now newToken newRefresh (user\<lparr>Password := []\<rparr>) s of
        (tokenResponse, s1) \<Rightarrow>
     if IsPoolAvailable (CurrentNode s1) then
       (let s2 = pool_put now (Token tokenResponse) newDB s1
        in (success ''Authentication successful'' ''/connect'' lookup tokenResponse,
            s2\<lparr>Metrics := RecordAuthentication True (RecordConnectionCreated (Metrics s2))\<rparr>))
     else
       (failure 406 ''Failed to create database connection, quota exceeded'' ''/connect'' lookup,
        s1\<lparr>Metrics := RecordAuthentication False (RecordPoolExhaustion now (Metrics s1))\<rparr>)))))"

text \<open>
  The block of \<^verbatim>\<open>HandleRefresh\<close> that closes the old connection: when the lookup
  succeeds, \<^verbatim>\<open>Close()\<close> is called on the driver; a close error is only logged, a clean
  close is counted.
\<close>

definition close_old_connection :: "int \<Rightarrow> string \<Rightarrow> server \<Rightarrow> server" where
  "close_old_connection now token s =
     (case GetDBConnectionByToken (CurrentNode s) now token of
        Inl err \<Rightarrow> s
      | Inr oldDB \<Rightarrow>
          (let s1 = s\<lparr>closed_drivers := closed_drivers s @ [driver_id oldDB]\<rparr>
           in if Close oldDB \<noteq> None then s1
              else s1\<lparr>Metrics := RecordConnectionClosed (Metrics s1)\<rparr>))"

definition HandleRefresh ::
  "int \<Rightarrow> string \<Rightarrow> string \<Rightarrow> string + SureSQLDB \<Rightarrow> TokenTable option \<Rightarrow> server
     \<Rightarrow> TokenTable outcome \<times> server" where
  "HandleRefresh now newToken newRefresh opened body s =
     (case body of
        None \<Rightarrow> (failure 400 ''Invalid request format'' ''/refresh'' [], s)
      | Some refreshReq \<Rightarrow>
     (case RefreshTokenExist now (Refresh refreshReq) (TokenStore s) of
        None \<Rightarrow> (failure 401 ''Invalid or expired refresh token'' ''/refresh'' [], s)
      | Some tokmap \<Rightarrow>
     (let s1 = pool_delete (Token tokmap) (close_old_connection now (Token tokmap) s)
      in case opened of
        Inl err \<Rightarrow> (failure 500 ''Failed to create database connection'' ''/refresh'' [], s1)
      | Inr newDB \<Rightarrow>
     (case createNewTokenResponse now newToken newRefresh
             \<lparr>ID = UserID tokmap, Username = UserName tokmap, Password = [], RoleName = []\<rparr> s1 of
        (tokenResponse, s2) \<Rightarrow>
     if IsPoolAvailable (CurrentNode s2) then
       (let s3 = pool_put now (Token tokenResponse) newDB s2;
            s4 = s3\<lparr>Metrics := RecordRefreshTokenUsed (RecordConnectionCreated (Metrics s3))\<rparr>
        in (success ''Token refreshed successfully'' ''/refresh'' [] tokenResponse,
            s4\<lparr>TokenStore := (TokenStore s4)
                 \<lparr>RefreshTokenMap := Delete (Refresh refreshReq) (RefreshTokenMap (TokenStore s4))\<rparr>\<rparr>))
     else
       (failure 503 ''Connection pool full'' ''/refresh'' [],
        s2\<lparr>Metrics := RecordPoolExhaustion now (Metrics s2)\<rparr>)))))"

text \<open>
  \<^verbatim>\<open>ConnectionManager.closeConnection\<close> (also reached as
  \<^verbatim>\<open>ForceCleanupConnection\<close>): close the driver leased under the token and remove the
  pool entry.
\<close>

definition closeConnection :: "int \<Rightarrow> string \<Rightarrow> server \<Rightarrow> bool \<times> server" where
  "closeConnection now token s =
     (case Get now token (DBConnections (CurrentNode s)) of
        None \<Rightarrow> (False, s)
      | Some db \<Rightarrow>
          (let s1 = s\<lparr>closed_drivers := closed_drivers s @ [driver_id db]\<rparr>;
               s2 = (if Close db \<noteq> None then s1
                     else s1\<lparr>Metrics := RecordConnectionClosed (Metrics s1)\<rparr>)
           in (True, pool_delete token s2)))"

section \<open>Binary64 arithmetic\<close>

text \<open>
  Rates and percentages are \<^verbatim>\<open>float64\<close> in the code. A finite \<^verbatim>\<open>float64\<close> is a pair
  \<open>(m, e)\<close> of an integer significand and an exponent, standing for \<open>m * 2^e\<close>.
  Conversion from an integer, division and multiplication round the exact result to 53
  significant bits, ties to even, as IEEE 754 does. The quotients of 64-bit counters and
  their products with 100 stay well inside the exponent range, so overflow, underflow and
  subnormal numbers do not arise and are left out. A division by zero is never reached
  (every use is guarded by the code); the model answers 0 there.
\<close>

type_synonym float64 = "int \<times> int"

definition valof :: "float64 \<Rightarrow> real" where
  "valof x = (case x of (m, e) \<Rightarrow>
      if 0 \<le> e then real_of_int (m * 2 ^ nat e) else real_of_int m / 2 ^ nat (- e))"

text \<open>The number of binary digits of a natural number.\<close>

fun bits :: "nat \<Rightarrow> nat" where
  "bits n = (if n = 0 then 0 else Suc (bits (n div 2)))"

declare bits.simps [simp del]

text \<open>\<open>n / d\<close> rounded to the nearest natural number, ties to even.\<close>

definition round_even :: "nat \<Rightarrow> nat \<Rightarrow> nat" where
  "round_even n d =
     (let q = n div d; r = n mod d
      in if 2 * r > d \<or> (2 * r = d \<and> odd q) then q + 1 else q)"

text \<open>\<open>m * 2^e\<close> rounded to 53 significant bits.\<close>

definition norm53 :: "nat \<Rightarrow> int \<Rightarrow> nat \<times> int" where
  "norm53 m e =
     (if bits m \<le> 53 then (m, e)
      else (round_even m (2 ^ (bits m - 53)), e + int (bits m - 53)))"

definition f64_of_int :: "int \<Rightarrow> float64" where
  "f64_of_int i = (case norm53 (nat \<bar>i\<bar>) 0 of (m, e) \<Rightarrow> (sgn i * int m, e))"

definition f64_mul :: "float64 \<Rightarrow> float64 \<Rightarrow> float64" where
  "f64_mul x y =
     (case (x, y) of ((m1, e1), (m2, e2)) \<Rightarrow>
        (case norm53 (nat \<bar>m1 * m2\<bar>) (e1 + e2) of
           (m, e) \<Rightarrow> (sgn (m1 * m2) * int m, e)))"

text \<open>
  Division: with \<open>a / b\<close> between \<open>2^fl\<close> and \<open>2^(fl + 1)\<close>, the quotient scaled by
  \<open>2^(52 - fl)\<close> has 53 bits before the binary point and is rounded there.
\<close>

definition f64_div :: "float64 \<Rightarrow> float64 \<Rightarrow> float64" where
  "f64_div x y =
     (case (x, y) of ((m1, e1), (m2, e2)) \<Rightarrow>
        if m1 = 0 \<or> m2 = 0 then (0, 0)
        else
          (let a = nat \<bar>m1\<bar>; b = nat \<bar>m2\<bar>;
               d = int (bits a) - int (bits b);
               fl = (if (if 0 \<le> d then b * 2 ^ nat d \<le> a else b \<le> a * 2 ^ nat (- d))
                     then d else d - 1);
               k = 52 - fl;
               q = (if 0 \<le> k then round_even (a * 2 ^ nat k) b
                    else round_even a (b * 2 ^ nat (- k)))
           in (sgn m1 * sgn m2 * int q, e1 - e2 - k)))"

text \<open>\<^verbatim>\<open>float64(a) / float64(b) * 100\<close>, as a real number.\<close>

definition percent :: "int \<Rightarrow> int \<Rightarrow> real" where
  "percent a b = valof (f64_mul (f64_div (f64_of_int a) (f64_of_int b)) (100, 0))"

section \<open>Health scoring\<close>

definition ConnectionPoolUsagePct :: "SureSQLNode \<Rightarrow> real" where
  "ConnectionPoolUsagePct n =
     (if MaxPool n > 0 then percent (Len (DBConnections n)) (MaxPool n) else 0)"

text \<open>
  \<^verbatim>\<open>float64(failed) / float64(executed) * 100\<close> for two unsigned 64-bit counters.
\<close>

definition failure_rate :: "64 word \<Rightarrow> 64 word \<Rightarrow> real" where
  "failure_rate failed executed = percent (uint failed) (uint executed)"

text \<open>\<^verbatim>\<open>GetHealthStatus\<close>: the status string and the list of issues.\<close>

definition GetHealthStatus :: "server \<Rightarrow> string \<times> string list" where
  "GetHealthStatus s =
     (let metrics = Metrics s;
          h0 = (''healthy'', []);
          h1 = (if ConnectionPoolUsagePct (CurrentNode s) \<ge> 90 then
                  (''degraded'', snd h0 @ [''connection pool near capacity''])
                else h0);
          h2 = (if AuthenticationAttempts metrics > 0 then
                  (if failure_rate (AuthenticationFailures metrics)
                        (AuthenticationAttempts metrics) > 50 then
                     (''degraded'', snd h1 @ [''high authentication failure rate''])
                   else h1)
                else h1);
          h3 = (if QueriesExecuted metrics > 0 then
                  (if failure_rate (QueriesFailed metrics) (QueriesExecuted metrics) > 10 then
                     (''unhealthy'', snd h2 @ [''high query failure rate''])
                   else h2)
                else h2)
      in if \<not> IsConnected (InternalConnection (CurrentNode s)) then
           (''unhealthy'', snd h3 @ [''database not connected''])
         else h3)"

section \<open>Alert engine\<close>

datatype AlertLevel = AlertLevelInfo | AlertLevelWarning | AlertLevelCritical

text \<open>An alert; the formatted message and the metadata map are left out.\<close>

record Alert =
  Level :: AlertLevel
  Title :: string
  Timestamp :: int

record AlertManager =
  alerts :: "Alert list"
  maxAlerts :: int
  poolWarningThreshold :: real
  poolCriticalThreshold :: real
  checkInterval :: int
  lastPoolWarning :: int
  lastPoolCritical :: int
  alertCooldown :: int

text \<open>
  Instants count nanoseconds from the zero \<^verbatim>\<open>time.Time\<close>, which is what the two
  \<open>last...\<close> fields hold before the first alert.
\<close>

definition NewAlertManager :: AlertManager where
  "NewAlertManager =
     \<lparr>alerts = [], maxAlerts = 100, poolWarningThreshold = 75, poolCriticalThreshold = 90,
      checkInterval = 30 * 1000000000, lastPoolWarning = 0, lastPoolCritical = 0,
      alertCooldown = 5 * Minute\<rparr>"

text \<open>\<^verbatim>\<open>time.Since\<close>: the difference, saturated to the range of \<^verbatim>\<open>time.Duration\<close>.\<close>

definition Since :: "int \<Rightarrow> int \<Rightarrow> int" where
  "Since now t =
     (let d = now - t
      in if d > 2 ^ 63 - 1 then 2 ^ 63 - 1 else if d < - (2 ^ 63) then - (2 ^ 63) else d)"

definition CreateAlert :: "int \<Rightarrow> AlertLevel \<Rightarrow> string \<Rightarrow> AlertManager \<Rightarrow> AlertManager" where
  "CreateAlert now level title am =
     (let appended = alerts am @ [\<lparr>Level = level, Title = title, Timestamp = now\<rparr>]
      in am\<lparr>alerts :=
             (if int (length appended) > maxAlerts am then
                drop (nat (int (length appended) - maxAlerts am)) appended
              else appended)\<rparr>)"

definition checkConnectionPool ::
  "int \<Rightarrow> SureSQLNode \<Rightarrow> NodeMetrics \<Rightarrow> AlertManager \<Rightarrow> AlertManager" where
  "checkConnectionPool now node metrics am =
     (if MaxPool node = 0 then am
      else
        (let active = Len (DBConnections node);
             usagePct = percent active (MaxPool node);
             am1 =
               (if usagePct \<ge> poolCriticalThreshold am then
                  (if Since now (lastPoolCritical am) > alertCooldown am then
                     (CreateAlert now AlertLevelCritical ''Connection Pool Critical'' am)
                       \<lparr>lastPoolCritical := now\<rparr>
                   else am)
                else if usagePct \<ge> poolWarningThreshold am then
                  (if Since now (lastPoolWarning am) > alertCooldown am then
                     (CreateAlert now AlertLevelWarning ''Connection Pool High Usage'' am)
                       \<lparr>lastPoolWarning := now\<rparr>
                   else am)
                else am)
         in if PoolExhaustionCount metrics > 0
               \<and> Since now (LastPoolExhaustion metrics) < 5 * Minute then
              CreateAlert now AlertLevelCritical ''Connection Pool Exhaustion'' am1
            else am1))"

definition checkAuthenticationFailures :: "int \<Rightarrow> NodeMetrics \<Rightarrow> AlertManager \<Rightarrow> AlertManager" where
  "checkAuthenticationFailures now metrics am =
     (if AuthenticationAttempts metrics < 10 then am
      else if failure_rate (AuthenticationFailures metrics) (AuthenticationAttempts metrics) > 50
      then CreateAlert now AlertLevelWarning ''High Authentication Failure Rate'' am
      else am)"

definition checkQueryFailures :: "int \<Rightarrow> NodeMetrics \<Rightarrow> AlertManager \<Rightarrow> AlertManager" where
  "checkQueryFailures now metrics am =
     (if QueriesExecuted metrics < 10 then am
      else
        (let failureRate = failure_rate (QueriesFailed metrics) (QueriesExecuted metrics)
         in if failureRate > 25 then
              CreateAlert now AlertLevelCritical ''High Query Failure Rate'' am
            else if failureRate > 10 then
              CreateAlert now AlertLevelWarning ''Elevated Query Failure Rate'' am
            else am))"

definition checkSystemHealth :: "int \<Rightarrow> server \<Rightarrow> AlertManager \<Rightarrow> AlertManager" where
  "checkSystemHealth now s am =
     checkQueryFailures now (Metrics s)
       (checkAuthenticationFailures now (Metrics s)
          (checkConnectionPool now (CurrentNode s) (Metrics s) am))"

section \<open>A small deployment used in the examples\<close>

definition alice_row :: DBRecord where
  "alice_row = \<lparr>TableName = ''_users'',
     Data = [(''id'', VInt 7), (''username'', VStr ''alice''),
             (''password'', VStr ''h:secret''), (''role_name'', VStr ''admin'')]\<rparr>"

definition order1 :: DBRecord where
  "order1 = \<lparr>TableName = ''orders'', Data = [(''id'', VInt 41)]\<rparr>"

definition order2 :: DBRecord where
  "order2 = \<lparr>TableName = ''orders'', Data = [(''id'', VInt 42)]\<rparr>"

definition by_id :: Condition where
  "by_id = Condition ''id'' ''='' (VInt 42) [] [] [] 0 0"

text \<open>A driver instance: its user table holds the single user \<open>alice\<close>, its table
  \<open>orders\<close> two rows; every insert statement reports seven affected rows.\<close>

definition tally7 :: BasicSQLResult where
  "tally7 = \<lparr>Error = None, RowsAffected = 7, LastInsertID = 1\<rparr>"

definition driver :: "nat \<Rightarrow> SureSQLDB" where
  "driver n =
     \<lparr>driver_id = n, Close = None, IsConnected = True,
      SelectOne = (\<lambda>t. if t = ''orders'' then Inr order1 else Inl ErrSQLNoRows),
      SelectMany = (\<lambda>t. if t = ''orders'' then Inr [order1, order2] else Inr []),
      SelectOneWithCondition =
        (\<lambda>t c. if t = ''_users'' \<and> c = username_condition ''alice'' then Inr alice_row
                else if t = ''orders'' \<and> c = by_id then Inr order2
                else Inl ErrSQLNoRows),
      SelectManyWithCondition =
        (\<lambda>t c. if t = ''orders'' \<and> c = by_id then Inr [order2] else Inr []),
      InsertOneDBRecord = (\<lambda>r q. tally7),
      InsertManyDBRecordsSameTable = (\<lambda>rs q. Inr (map (\<lambda>r. tally7) rs)),
      InsertManyDBRecords = (\<lambda>rs q. Inr (map (\<lambda>r. tally7) rs))\<rparr>"

text \<open>The same driver, reporting \<open>f n\<close> affected rows wherever it reported \<open>n\<close>.\<close>

definition with_rows_affected :: "(int \<Rightarrow> int) \<Rightarrow> SureSQLDB \<Rightarrow> SureSQLDB" where
  "with_rows_affected f db =
     db\<lparr>InsertOneDBRecord := (\<lambda>r q. (InsertOneDBRecord db r q)
            \<lparr>RowsAffected := f (RowsAffected (InsertOneDBRecord db r q))\<rparr>),
        InsertManyDBRecordsSameTable := (\<lambda>rs q. map_sum id
            (map (\<lambda>x. x\<lparr>RowsAffected := f (RowsAffected x)\<rparr>))
            (InsertManyDBRecordsSameTable db rs q)),
        InsertManyDBRecords := (\<lambda>rs q. map_sum id
            (map (\<lambda>x. x\<lparr>RowsAffected := f (RowsAffected x)\<rparr>))
            (InsertManyDBRecords db rs q))\<rparr>"

definition toy_hash :: hash_pin where
  "toy_hash pass key client = Inr (''h:'' @ pass)"

definition config0 :: ConfigTable where
  "config0 = \<lparr>TokenExp = 60 * Minute, RefreshExp = 120 * Minute, TTLTicker = 5 * Minute,
     APIKey = ''key'', ClientID = ''client''\<rparr>"

definition node0 :: SureSQLNode where
  "node0 = \<lparr>Config = config0, InternalConnection = driver 0,
     DBConnections = NewTTLMap (RefreshExp config0), MaxPool = 1, IsPoolEnabled = True\<rparr>"

definition server0 :: server where
  "server0 = \<lparr>CurrentNode = node0,
     TokenStore = NewTokenStore (TokenExp config0) (RefreshExp config0),
     Metrics = InitMetrics, closed_drivers = []\<rparr>"

definition alice_login :: UserTable where
  "alice_login = \<lparr>ID = 0, Username = ''alice'', Password = ''secret'', RoleName = []\<rparr>"

definition alice_wrong :: UserTable where
  "alice_wrong = \<lparr>ID = 0, Username = ''alice'', Password = ''guess'', RoleName = []\<rparr>"

definition mallory_login :: UserTable where
  "mallory_login = \<lparr>ID = 0, Username = ''mallory'', Password = ''secret'', RoleName = []\<rparr>"

text \<open>The state after \<open>alice\<close> has connected at instant 1000 and received
  \<open>tokA\<close>/\<open>refA\<close> with driver 1.\<close>

definition server1 :: server where
  "server1 = snd (HandleConnect toy_hash 1000 ''tokA'' ''refA'' (Inr (driver 1))
                    (Some alice_login) server0)"

definition tokenA :: TokenTable where
  "tokenA = \<lparr>UserID = 7, Token = ''tokA'', Refresh = ''refA'',
     TokenExpiresAt = 1000 + DEFAULT_TOKEN_EXPIRES_MINUTES,
     RefreshExpiresAt = 1000 + DEFAULT_REFRESH_EXPIRES_MINUTES, UserName = ''alice''\<rparr>"

text \<open>Then the connection manager reclaims the pool entry of \<open>tokA\<close>, and a second
  session connects and takes the only slot of the pool.\<close>

definition server2 :: server where
  "server2 = snd (closeConnection 1200 ''tokA'' server1)"

definition server3 :: server where
  "server3 = snd (HandleConnect toy_hash 1500 ''tokB'' ''refB'' (Inr (driver 2))
                    (Some alice_login) server2)"

definition tokenB :: TokenTable where
  "tokenB = \<lparr>UserID = 7, Token = ''tokB'', Refresh = ''refB'',
     TokenExpiresAt = 1500 + DEFAULT_TOKEN_EXPIRES_MINUTES,
     RefreshExpiresAt = 1500 + DEFAULT_REFRESH_EXPIRES_MINUTES, UserName = ''alice''\<rparr>"

definition refresh_req :: "string \<Rightarrow> TokenTable" where
  "refresh_req r = \<lparr>UserID = 0, Token = [], Refresh = r, TokenExpiresAt = 0,
     RefreshExpiresAt = 0, UserName = []\<rparr>"

text \<open>Filters, records and metric states used in the examples.\<close>

definition bare_operator :: Condition where
  "bare_operator = Condition [] ''='' (VInt 42) [] [] [] 0 0"

definition bare_compare :: Condition where
  "bare_compare = Condition [] ''>'' (VInt 7) [] [] [] 0 0"

definition limit_only :: Condition where
  "limit_only = Condition [] [] VNil [] [] [] 5 0"

text \<open>A node without pool whose internal driver reports one affected row per insert
  statement.\<close>

definition unit_tally :: BasicSQLResult where
  "unit_tally = \<lparr>Error = None, RowsAffected = 1, LastInsertID = 1\<rparr>"

definition node_unit :: SureSQLNode where
  "node_unit = node0\<lparr>InternalConnection := with_rows_affected (\<lambda>n. 1) (driver 0),
                      IsPoolEnabled := False\<rparr>"

definition rec_t1 :: DBRecord where
  "rec_t1 = \<lparr>TableName = ''t1'', Data = [(''id'', VInt 1)]\<rparr>"

definition rec_t2 :: DBRecord where
  "rec_t2 = \<lparr>TableName = ''t2'', Data = [(''id'', VInt 1)]\<rparr>"

text \<open>One login while the backing engine refuses connections.\<close>

definition db_down_once :: server where
  "db_down_once = snd (HandleConnect toy_hash 1000 ''tokA'' ''refA'' (Inl ''connection refused'')
                    (Some alice_login) server0)"

definition two_of_three :: server where
  "two_of_three = server0\<lparr>Metrics := InitMetrics\<lparr>AuthenticationAttempts := 3,
      AuthenticationFailures := 2\<rparr>\<rparr>"

text \<open>The node of \<open>server1\<close> (pool 1 of 1 in use) with ten failed authentications out of
  ten, five failed queries out of ten and a pool exhaustion one minute before instant
  \<open>1000 * Minute\<close>.\<close>

definition under_attack :: server where
  "under_attack = server1\<lparr>Metrics := (Metrics server1)
      \<lparr>AuthenticationAttempts := 10, AuthenticationFailures := 10,
       PoolExhaustionCount := 1, LastPoolExhaustion := 999 * Minute,
       QueriesExecuted := 10, QueriesFailed := 5\<rparr>\<rparr>"

section \<open>Evaluating the deployment\<close>

lemmas ttl_defs = NewTTLMap_def Put_def Get_def Delete_def Len_def

lemmas metric_defs = InitMetrics_def RecordConnectionCreated_def RecordConnectionClosed_def
  RecordPoolExhaustion_def RecordTokenCreated_def RecordRefreshTokenUsed_def
  RecordAuthentication_def RecordQuery_def

lemmas store_defs = NewTokenStore_def SaveToken_def TokenExist_def RefreshTokenExist_def

lemmas session_defs = HandleConnect_def HandleRefresh_def createNewTokenResponse_def
  pool_put_def pool_delete_def close_old_connection_def closeConnection_def IsPoolAvailable_def
  GetDBConnectionByToken_def userNameExist_def passwordMatch_def MapToStructSlowDB_def
  ValidateUsername_def usernameRegex_def MaxUsernameLength_def is_letter_def is_digit_def
  failure_def success_def

lemmas example_defs = server0_def node0_def config0_def driver_def toy_hash_def
  alice_login_def alice_wrong_def mallory_login_def alice_row_def username_condition_def
  tally7_def refresh_req_def by_id_def order1_def order2_def

lemmas eval_defs = session_defs store_defs ttl_defs metric_defs example_defs Let_def

lemma server1_eval:
  "server1 =
     \<lparr>CurrentNode = node0\<lparr>DBConnections :=
        \<lparr>defaultTTL = 120 * Minute, items = [(''tokA'', (driver 1, 1000 + 120 * Minute))]\<rparr>\<rparr>,
      TokenStore =
        \<lparr>TokenMap = \<lparr>defaultTTL = 60 * Minute,
                      items = [(''tokA'', (tokenA, 1000 + 60 * Minute))]\<rparr>,
         RefreshTokenMap = \<lparr>defaultTTL = 120 * Minute,
                      items = [(''refA'', (tokenA, 1000 + 120 * Minute))]\<rparr>\<rparr>,
      Metrics = InitMetrics\<lparr>ConnectionsCreated := 1, TokensCreated := 1,
                  AuthenticationAttempts := 1\<rparr>,
      closed_drivers = []\<rparr>"
  by (simp add: server1_def eval_defs tokenA_def)

lemma server2_eval:
  "server2 = server1\<lparr>CurrentNode := node0,
      Metrics := (Metrics server1)\<lparr>ConnectionsClosed := 1\<rparr>, closed_drivers := [1]\<rparr>"
  by (simp add: server2_def server1_eval eval_defs Minute_def)

lemma server3_eval:
  "server3 =
     \<lparr>CurrentNode = node0\<lparr>DBConnections :=
        \<lparr>defaultTTL = 120 * Minute, items = [(''tokB'', (driver 2, 1500 + 120 * Minute))]\<rparr>\<rparr>,
      TokenStore =
        \<lparr>TokenMap = \<lparr>defaultTTL = 60 * Minute,
            items = [(''tokA'', (tokenA, 1000 + 60 * Minute)),
                     (''tokB'', (tokenB, 1500 + 60 * Minute))]\<rparr>,
         RefreshTokenMap = \<lparr>defaultTTL = 120 * Minute,
            items = [(''refA'', (tokenA, 1000 + 120 * Minute)),
                     (''refB'', (tokenB, 1500 + 120 * Minute))]\<rparr>\<rparr>,
      Metrics = InitMetrics\<lparr>ConnectionsCreated := 2, ConnectionsClosed := 1,
                  TokensCreated := 2, AuthenticationAttempts := 2\<rparr>,
      closed_drivers = [1]\<rparr>"
  by (simp add: server3_def server2_eval server1_eval eval_defs Minute_def tokenA_def tokenB_def)

lemma funpow_fixed: "f x = x \<Longrightarrow> (f ^^ n) x = x"
  by (induction n) simp_all

lemma tokA_connection:
  "GetDBConnectionByToken (CurrentNode server1) 2000 ''tokA'' = Inr (driver 1)"
  by (simp add: server1_eval GetDBConnectionByToken_def Get_def node0_def Minute_def)

lemma tokA_live: "TokenExist 2000 ''tokA'' (TokenStore server1) = Some tokenA"
  by (simp add: server1_eval eval_defs Minute_def)

lemma orders_valid: "ValidateTableName ''orders'' False = None"
  by (simp add: ValidateTableName_def tableNameRegex_def MaxTableNameLength_def HasPrefix_def
        is_letter_def is_digit_def)

section \<open>Binary64 arithmetic: values used below\<close>

lemmas f64_defs = f64_mul_def f64_div_def f64_of_int_def norm53_def round_even_def
  bits.simps Let_def

lemma percent_values:
  "percent 1 1 = 100" "percent 10 10 = 100" "percent 5 10 = 50" "percent 0 1 = 0"
  by (simp_all add: percent_def valof_def f64_defs)

lemma percent_two_thirds: "percent 2 3 > 50"
  by (simp add: percent_def valof_def f64_defs)

text \<open>Rounding is visible with large counters: \<open>2^63 + 1\<close> failures out of
  \<open>2^64 - 1\<close> attempts are more than half, and the rate is exactly 50.\<close>

lemma failure_rate_rounds: "failure_rate 9223372036854775809 18446744073709551615 = 50"
proof -
  have "f64_of_int 9223372036854775809 = (2 ^ 52, 11)"
    by (simp add: f64_defs)
  moreover have "f64_of_int 18446744073709551615 = (2 ^ 53, 11)"
    by (simp add: f64_defs)
  moreover have "f64_div (2 ^ 52, 11) (2 ^ 53, 11) = (2 ^ 52, - 53)"
    by (simp add: f64_defs)
  moreover have "f64_mul (2 ^ 52, - 53) (100, 0) = (100 * 2 ^ 46, - 47)"
    by (simp add: f64_defs)
  moreover have "valof (100 * 2 ^ 46, - 47) = 50"
    by (simp add: valof_def)
  ultimately show ?thesis
    by (simp add: failure_rate_def percent_def)
qed

section \<open>TTL map: lookups after updates\<close>

lemma Get_Put_other: "k \<noteq> k' \<Longrightarrow> Get t k' (Put now k ttl v m) = Get t k' m"
  by (simp add: Get_def Put_def update_conv')


lemma Get_Delete_same: "Get t k (Delete k m) = None"
  by (simp add: Get_def Delete_def delete_conv')


section \<open>SQL dispatcher: routing, empty filters, rows affected\<close>

lemma finish_one_answers: "answers_row (finish_one l c r) c r"
  by (simp add: answers_row_def finish_one_def success_def failure_def split: sum.split)

lemma finish_many_answers: "answers_rows (finish_many l c r) c r"
  by (simp add: answers_rows_def finish_many_def success_def failure_def split: sum.split)

lemma hasCondition_filter_given: "hasCondition q = filter_given (Condition_q q)"
  by (simp add: hasCondition_def filter_given_def isEmptyCondition_def split: option.split)

lemma internal_table_rejected:
  "HasPrefix n ''_'' \<Longrightarrow> n = [] \<or> ValidateTableName n False \<noteq> None"
  by (simp add: ValidateTableName_def)

lemma empty_table_rejected: "ValidateTableName [] False \<noteq> None"
  by (simp add: ValidateTableName_def)

text \<open>The query handler once the request has passed validation and the session's
  connection has been found.\<close>

lemma HandleQuery_routed:
  assumes "ValidateTableName (Table q) False = None"
    and "GetDBConnectionByToken node now (Token t) = Inr db"
  shows "HandleQuery node now (Some t) (Some q) =
     (if SingleRow q then
        (if filter_given (Condition_q q) then
           finish_one ''/query/SelectOneWithCondition''
             (CallSelectOneWithCondition (Table q) (the (Condition_q q)))
             (SelectOneWithCondition db (Table q) (the (Condition_q q)))
         else finish_one ''/query/SelectOne'' (CallSelectOne (Table q)) (SelectOne db (Table q)))
      else
        (if filter_given (Condition_q q) then
           finish_many ''/query/SelectManyWithCondition''
             (CallSelectManyWithCondition (Table q) (the (Condition_q q)))
             (SelectManyWithCondition db (Table q) (the (Condition_q q)))
         else finish_many ''/query/SelectMany'' (CallSelectMany (Table q))
                (SelectMany db (Table q))))"
  using assms empty_table_rejected
  by (auto simp add: HandleQuery_def hasCondition_filter_given)

lemma tokA_no_connection:
  "GetDBConnectionByToken (CurrentNode server0) 2000 ''tokA'' = Inl ErrNoDBConnection"
  by (simp add: server0_def GetDBConnectionByToken_def Get_def node0_def NewTTLMap_def)

text \<open>
  Claim C1, as stated: for every QueryRequest with a valid, non-internal table name the
  dispatcher invokes exactly one driver operation, and a non-empty condition selects the
  \<open>WithCondition\<close> variant. Two things fail. The condition \<open>bare_compare\<close> (operator
  and value set) is not all zero, yet the single-row query is sent to \<open>SelectOne\<close> and
  the many-row query to \<open>SelectMany\<close>. And a valid query of a session whose connection
  is not in the pool is answered 500 with no driver operation at all.
\<close>

theorem nonempty_condition_routed_as_none:
  "\<not> all_fields_zero bare_compare
   \<and> calls (HandleQuery (CurrentNode server1) 2000 (Some tokenA)
        (Some \<lparr>Table = ''orders'', Condition_q = Some bare_compare, SingleRow = True\<rparr>))
       = [CallSelectOne ''orders'']
   \<and> calls (HandleQuery (CurrentNode server1) 2000 (Some tokenA)
        (Some \<lparr>Table = ''orders'', Condition_q = Some bare_compare, SingleRow = False\<rparr>))
       = [CallSelectMany ''orders'']
   \<and> ValidateTableName ''orders'' False = None
   \<and> calls (HandleQuery (CurrentNode server0) 2000 (Some tokenA)
        (Some \<lparr>Table = ''orders'', Condition_q = None, SingleRow = False\<rparr>)) = []
   \<and> Status (HandleQuery (CurrentNode server0) 2000 (Some tokenA)
        (Some \<lparr>Table = ''orders'', Condition_q = None, SingleRow = False\<rparr>)) = 500"
proof -
  have "\<not> filter_given (Some bare_compare)"
    by (simp add: filter_given_def bare_compare_def)
  then have "calls (HandleQuery (CurrentNode server1) 2000 (Some tokenA)
        (Some \<lparr>Table = ''orders'', Condition_q = Some bare_compare, SingleRow = True\<rparr>))
       = [CallSelectOne ''orders'']"
    and "calls (HandleQuery (CurrentNode server1) 2000 (Some tokenA)
        (Some \<lparr>Table = ''orders'', Condition_q = Some bare_compare, SingleRow = False\<rparr>))
       = [CallSelectMany ''orders'']"
    using tokA_connection orders_valid
    by (simp_all add: HandleQuery_routed [where db = "driver 1"] tokenA_def
          finish_one_def finish_many_def success_def driver_def)
  moreover have "HandleQuery (CurrentNode server0) 2000 (Some tokenA)
        (Some \<lparr>Table = ''orders'', Condition_q = None, SingleRow = False\<rparr>)
       = failure 500 ''Cannot get DB connection'' ''/query/'' []"
    using tokA_no_connection orders_valid
    by (simp add: HandleQuery_def tokenA_def)
  ultimately show ?thesis
    using orders_valid
    by (simp add: all_fields_zero_def bare_compare_def failure_def)
qed

text \<open>
  Claim C1, amended: for every QueryRequest with a valid, non-internal table name, sent
  on a session whose connection is found, the dispatcher invokes exactly one driver
  operation and builds the response from what it returns, by the routing table:
  \<open>SelectOneWithCondition\<close> for single-row with a filter, \<open>SelectOne\<close> for single-row
  without, \<open>SelectManyWithCondition\<close> and \<open>SelectMany\<close> likewise for many rows. A
  filter is given when the condition is present and its field name, nested, order-by or
  group-by list, limit or offset is non-zero (operator and value do not count). A table
  name starting with \<open>_\<close> is rejected, with 400 (401 without a token), before any driver
  call.
\<close>

theorem HandleQuery_dispatch:
  "(tok = Some t \<and> body = Some q \<and> ValidateTableName (Table q) False = None
      \<and> GetDBConnectionByToken node now (Token t) = Inr db
    \<longrightarrow> (SingleRow q \<and> Condition_q q = Some c \<and> filter_given (Some c)
          \<longrightarrow> answers_row (HandleQuery node now tok body)
                (CallSelectOneWithCondition (Table q) c)
                (SelectOneWithCondition db (Table q) c))
      \<and> (SingleRow q \<and> \<not> filter_given (Condition_q q)
          \<longrightarrow> answers_row (HandleQuery node now tok body)
                (CallSelectOne (Table q)) (SelectOne db (Table q)))
      \<and> (\<not> SingleRow q \<and> Condition_q q = Some c \<and> filter_given (Some c)
          \<longrightarrow> answers_rows (HandleQuery node now tok body)
                (CallSelectManyWithCondition (Table q) c)
                (SelectManyWithCondition db (Table q) c))
      \<and> (\<not> SingleRow q \<and> \<not> filter_given (Condition_q q)
          \<longrightarrow> answers_rows (HandleQuery node now tok body)
                (CallSelectMany (Table q)) (SelectMany db (Table q))))
   \<and> (body = Some q \<and> HasPrefix (Table q) ''_''
    \<longrightarrow> calls (HandleQuery node now tok body) = []
      \<and> payload (HandleQuery node now tok body) = None
      \<and> Status (HandleQuery node now tok body) = (if tok = None then 401 else 400))"
proof (intro conjI impI)
  assume "body = Some q \<and> HasPrefix (Table q) ''_''"
  then show "calls (HandleQuery node now tok body) = []"
    and "payload (HandleQuery node now tok body) = None"
    and "Status (HandleQuery node now tok body) = (if tok = None then 401 else 400)"
    using internal_table_rejected [of "Table q"]
    by (auto simp add: HandleQuery_def failure_def split: option.split)
qed (auto simp add: HandleQuery_routed finish_one_answers finish_many_answers)

theorem HandleQuery_dispatch_witness:
  "payload (HandleQuery (CurrentNode server1) 2000 (Some tokenA)
            (Some \<lparr>Table = ''orders'', Condition_q = Some by_id, SingleRow = True\<rparr>))
     = Some \<lparr>Records = [order2], Count = 1\<rparr>
   \<and> calls (HandleQuery (CurrentNode server1) 2000 (Some tokenA)
            (Some \<lparr>Table = ''orders'', Condition_q = Some by_id, SingleRow = True\<rparr>))
     = [CallSelectOneWithCondition ''orders'' by_id]
   \<and> payload (HandleQuery (CurrentNode server1) 2000 (Some tokenA)
            (Some \<lparr>Table = ''orders'', Condition_q = None, SingleRow = False\<rparr>))
     = Some \<lparr>Records = [order1, order2], Count = 2\<rparr>
   \<and> calls (HandleQuery (CurrentNode server1) 2000 (Some tokenA)
            (Some \<lparr>Table = ''orders'', Condition_q = None, SingleRow = False\<rparr>))
     = [CallSelectMany ''orders'']
   \<and> calls (HandleQuery (CurrentNode server1) 2000 (Some tokenA)
            (Some \<lparr>Table = ''_users'', Condition_q = None, SingleRow = False\<rparr>)) = []
   \<and> Status (HandleQuery (CurrentNode server1) 2000 (Some tokenA)
            (Some \<lparr>Table = ''_users'', Condition_q = None, SingleRow = False\<rparr>)) = 400"
  using HandleQuery_dispatch [of "Some tokenA" tokenA
          "Some \<lparr>Table = ''orders'', Condition_q = Some by_id, SingleRow = True\<rparr>"
          "\<lparr>Table = ''orders'', Condition_q = Some by_id, SingleRow = True\<rparr>"
          "CurrentNode server1" 2000 "driver 1" by_id]
        HandleQuery_dispatch [of "Some tokenA" tokenA
          "Some \<lparr>Table = ''orders'', Condition_q = None, SingleRow = False\<rparr>"
          "\<lparr>Table = ''orders'', Condition_q = None, SingleRow = False\<rparr>"
          "CurrentNode server1" 2000 "driver 1" by_id]
        HandleQuery_dispatch [of "Some tokenA" tokenA
          "Some \<lparr>Table = ''_users'', Condition_q = None, SingleRow = False\<rparr>"
          "\<lparr>Table = ''_users'', Condition_q = None, SingleRow = False\<rparr>"
          "CurrentNode server1" 2000 "driver 1" by_id]
        tokA_connection orders_valid
  by (simp add: tokenA_def filter_given_def by_id_def HasPrefix_def answers_row_def
        answers_rows_def driver_def)

text \<open>
  Claim C6, as stated: a condition is classified as empty exactly when all of its fields
  are zero-valued, so that a condition whose only non-zero fields are operator and value
  is a real filter. It is not: such a condition is classified as empty and the query is
  dispatched to \<open>SelectOne\<close>.
\<close>

theorem bare_operator_condition_counts_as_empty:
  "isEmptyCondition bare_operator \<and> \<not> all_fields_zero bare_operator
   \<and> calls (HandleQuery (CurrentNode server1) 2000 (Some tokenA)
            (Some \<lparr>Table = ''orders'', Condition_q = Some bare_operator, SingleRow = True\<rparr>))
       = [CallSelectOne ''orders'']"
  using tokA_connection orders_valid
  by (simp add: HandleQuery_def finish_one_def success_def driver_def hasCondition_def
        isEmptyCondition_def all_fields_zero_def bare_operator_def tokenA_def)

lemma isEmptyCondition_shape:
  "isEmptyCondition c \<longleftrightarrow> (\<exists>op v. c = Condition [] op v [] [] [] 0 0)"
  by (cases c) (auto simp add: isEmptyCondition_def)

lemma filter_given_shape:
  "filter_given (Some c) \<longleftrightarrow> \<not> (\<exists>op v. c = Condition [] op v [] [] [] 0 0)"
  by (cases c) (auto simp add: filter_given_def)

text \<open>
  Claim C6, amended: a condition is classified as empty exactly when its field name is
  empty, its nested, order-by and group-by lists are empty and its limit and offset are
  0, whatever its operator and value. A query with such a condition is answered exactly
  as the same query without condition: on a valid request the one driver operation is
  \<open>SelectOne\<close> or \<open>SelectMany\<close> on the table and the response is built from what it
  returns. A query with any other condition is routed to \<open>SelectOneWithCondition\<close> or
  \<open>SelectManyWithCondition\<close> with that condition, and the response is built from what
  that operation returns.
\<close>

theorem empty_condition_dispatch:
  "HandleQuery node now tok (Some (q\<lparr>Condition_q := Some (Condition [] op v [] [] [] 0 0)\<rparr>))
     = HandleQuery node now tok (Some (q\<lparr>Condition_q := None\<rparr>))
   \<and> (tok = Some t \<and> body = Some q \<and> ValidateTableName (Table q) False = None
        \<and> GetDBConnectionByToken node now (Token t) = Inr db
      \<longrightarrow> (Condition_q q = None
            \<or> (\<exists>op v. Condition_q q = Some (Condition [] op v [] [] [] 0 0))
          \<longrightarrow> (if SingleRow q then
                 answers_row (HandleQuery node now tok body)
                   (CallSelectOne (Table q)) (SelectOne db (Table q))
               else
                 answers_rows (HandleQuery node now tok body)
                   (CallSelectMany (Table q)) (SelectMany db (Table q))))
        \<and> (Condition_q q = Some c \<and> \<not> (\<exists>op v. c = Condition [] op v [] [] [] 0 0)
          \<longrightarrow> (if SingleRow q then
                 answers_row (HandleQuery node now tok body)
                   (CallSelectOneWithCondition (Table q) c)
                   (SelectOneWithCondition db (Table q) c)
               else
                 answers_rows (HandleQuery node now tok body)
                   (CallSelectManyWithCondition (Table q) c)
                   (SelectManyWithCondition db (Table q) c))))"
proof (intro conjI impI)
  show "HandleQuery node now tok (Some (q\<lparr>Condition_q := Some (Condition [] op v [] [] [] 0 0)\<rparr>))
     = HandleQuery node now tok (Some (q\<lparr>Condition_q := None\<rparr>))"
    by (simp add: HandleQuery_def hasCondition_def isEmptyCondition_def
          split: option.split sum.split)
next
  assume valid: "tok = Some t \<and> body = Some q \<and> ValidateTableName (Table q) False = None
        \<and> GetDBConnectionByToken node now (Token t) = Inr db"
    and "Condition_q q = None \<or> (\<exists>op v. Condition_q q = Some (Condition [] op v [] [] [] 0 0))"
  then have "\<not> filter_given (Condition_q q)"
    by (auto simp add: filter_given_def)
  with valid show "if SingleRow q then
                 answers_row (HandleQuery node now tok body)
                   (CallSelectOne (Table q)) (SelectOne db (Table q))
               else
                 answers_rows (HandleQuery node now tok body)
                   (CallSelectMany (Table q)) (SelectMany db (Table q))"
    by (simp add: HandleQuery_routed finish_one_answers finish_many_answers)
next
  assume valid: "tok = Some t \<and> body = Some q \<and> ValidateTableName (Table q) False = None
        \<and> GetDBConnectionByToken node now (Token t) = Inr db"
    and "Condition_q q = Some c \<and> \<not> (\<exists>op v. c = Condition [] op v [] [] [] 0 0)"
  then have "filter_given (Condition_q q)" and "the (Condition_q q) = c"
    by (simp_all add: filter_given_shape)
  with valid show "if SingleRow q then
                 answers_row (HandleQuery node now tok body)
                   (CallSelectOneWithCondition (Table q) c)
                   (SelectOneWithCondition db (Table q) c)
               else
                 answers_rows (HandleQuery node now tok body)
                   (CallSelectManyWithCondition (Table q) c)
                   (SelectManyWithCondition db (Table q) c)"
    by (simp add: HandleQuery_routed finish_one_answers finish_many_answers)
qed

theorem empty_condition_dispatch_witness:
  "HandleQuery (CurrentNode server1) 2000 (Some tokenA)
      (Some \<lparr>Table = ''orders'', Condition_q = Some bare_operator, SingleRow = False\<rparr>)
     = HandleQuery (CurrentNode server1) 2000 (Some tokenA)
         (Some \<lparr>Table = ''orders'', Condition_q = None, SingleRow = False\<rparr>)
   \<and> payload (HandleQuery (CurrentNode server1) 2000 (Some tokenA)
        (Some \<lparr>Table = ''orders'', Condition_q = Some bare_operator, SingleRow = False\<rparr>))
       = Some \<lparr>Records = [order1, order2], Count = 2\<rparr>
   \<and> calls (HandleQuery (CurrentNode server1) 2000 (Some tokenA)
        (Some \<lparr>Table = ''orders'', Condition_q = Some bare_operator, SingleRow = False\<rparr>))
       = [CallSelectMany ''orders'']
   \<and> calls (HandleQuery (CurrentNode server1) 2000 (Some tokenA)
        (Some \<lparr>Table = ''orders'', Condition_q = Some limit_only, SingleRow = False\<rparr>))
       = [CallSelectManyWithCondition ''orders'' limit_only]
   \<and> payload (HandleQuery (CurrentNode server1) 2000 (Some tokenA)
        (Some \<lparr>Table = ''orders'', Condition_q = Some by_id, SingleRow = True\<rparr>))
       = Some \<lparr>Records = [order2], Count = 1\<rparr>"
proof -
  let ?bare = "\<lparr>Table = ''orders'', Condition_q = Some bare_operator, SingleRow = False\<rparr>"
  let ?limit = "\<lparr>Table = ''orders'', Condition_q = Some limit_only, SingleRow = False\<rparr>"
  let ?byid = "\<lparr>Table = ''orders'', Condition_q = Some by_id, SingleRow = True\<rparr>"
  have conn: "GetDBConnectionByToken (CurrentNode server1) 2000 (Token tokenA) = Inr (driver 1)"
    using tokA_connection by (simp add: tokenA_def)
  have same: "HandleQuery (CurrentNode server1) 2000 (Some tokenA) (Some ?bare)
     = HandleQuery (CurrentNode server1) 2000 (Some tokenA)
         (Some \<lparr>Table = ''orders'', Condition_q = None, SingleRow = False\<rparr>)"
    using empty_condition_dispatch [where node = "CurrentNode server1" and now = 2000
            and tok = "Some tokenA" and q = ?bare and op = "''=''" and v = "VInt 42"]
    by (simp add: bare_operator_def)
  have "answers_rows (HandleQuery (CurrentNode server1) 2000 (Some tokenA) (Some ?bare))
          (CallSelectMany ''orders'') (SelectMany (driver 1) ''orders'')"
    using empty_condition_dispatch [where node = "CurrentNode server1" and now = 2000
            and tok = "Some tokenA" and q = ?bare and t = tokenA and body = "Some ?bare"
            and db = "driver 1" and c = bare_operator and op = "''=''" and v = "VInt 42",
            THEN conjunct2]
          conn orders_valid
    by (simp add: bare_operator_def)
  then have bare: "payload (HandleQuery (CurrentNode server1) 2000 (Some tokenA) (Some ?bare))
       = Some \<lparr>Records = [order1, order2], Count = 2\<rparr>"
      "calls (HandleQuery (CurrentNode server1) 2000 (Some tokenA) (Some ?bare))
       = [CallSelectMany ''orders'']"
    by (simp_all add: answers_rows_def driver_def)
  have "answers_rows (HandleQuery (CurrentNode server1) 2000 (Some tokenA) (Some ?limit))
          (CallSelectManyWithCondition ''orders'' limit_only)
          (SelectManyWithCondition (driver 1) ''orders'' limit_only)"
    using empty_condition_dispatch [where node = "CurrentNode server1" and now = 2000
            and tok = "Some tokenA" and q = ?limit and t = tokenA and body = "Some ?limit"
            and db = "driver 1" and c = limit_only and op = "''=''" and v = "VInt 42",
            THEN conjunct2]
          conn orders_valid
    by (simp add: limit_only_def)
  then have limit: "calls (HandleQuery (CurrentNode server1) 2000 (Some tokenA) (Some ?limit))
       = [CallSelectManyWithCondition ''orders'' limit_only]"
    by (simp add: answers_rows_def)
  have "answers_row (HandleQuery (CurrentNode server1) 2000 (Some tokenA) (Some ?byid))
          (CallSelectOneWithCondition ''orders'' by_id)
          (SelectOneWithCondition (driver 1) ''orders'' by_id)"
    using empty_condition_dispatch [where node = "CurrentNode server1" and now = 2000
            and tok = "Some tokenA" and q = ?byid and t = tokenA and body = "Some ?byid"
            and db = "driver 1" and c = by_id and op = "''=''" and v = "VInt 42",
            THEN conjunct2]
          conn orders_valid
    by (simp add: by_id_def)
  then have "payload (HandleQuery (CurrentNode server1) 2000 (Some tokenA) (Some ?byid))
       = Some \<lparr>Records = [order2], Count = 1\<rparr>"
    by (simp add: answers_row_def driver_def by_id_def username_condition_def)
  with same bare limit show ?thesis by simp
qed

text \<open>The insert handler once the records are there and the session's connection has
  been found.\<close>

lemma HandleInsert_routed:
  assumes "GetDBConnectionByToken node now (Token t) = Inr db" and "Records_i req \<noteq> []"
  shows "HandleInsert node now (Some t) (Some req) =
     (if length (Records_i req) = 1 then
        (if Error (InsertOneDBRecord db (Records_i req ! 0) (Queue req)) \<noteq> None then
           failure 500 ''Failed to insert record'' ''/insert/InsertOneDBRecord''
             [CallInsertOneDBRecord (Records_i req ! 0) (Queue req)]
         else
           success ''Successfully inserted records'' ''/insert/InsertOneDBRecord''
             [CallInsertOneDBRecord (Records_i req ! 0) (Queue req)]
             \<lparr>Results = [InsertOneDBRecord db (Records_i req ! 0) (Queue req)],
              RowsAffected_r = 1\<rparr>)
      else if SameTable req then
        (case InsertManyDBRecordsSameTable db (Records_i req) (Queue req) of
           Inl err \<Rightarrow>
             failure 500 ''Failed to insert multiple records of same table''
               ''/insert/InsertManyDBRecordsSameTable''
               [CallInsertManyDBRecordsSameTable (Records_i req) (Queue req)]
         | Inr results \<Rightarrow>
             success ''Successfully inserted records'' ''/insert/InsertManyDBRecordsSameTable''
               [CallInsertManyDBRecordsSameTable (Records_i req) (Queue req)]
               \<lparr>Results = results, RowsAffected_r = int (length (Records_i req))\<rparr>)
      else
        (case InsertManyDBRecords db (Records_i req) (Queue req) of
           Inl err \<Rightarrow>
             failure 500 ''Failed to insert multiple records'' ''/insert/InsertManyDBRecords''
               [CallInsertManyDBRecords (Records_i req) (Queue req)]
         | Inr results \<Rightarrow>
             success ''Successfully inserted records'' ''/insert/InsertManyDBRecords''
               [CallInsertManyDBRecords (Records_i req) (Queue req)]
               \<lparr>Results = results, RowsAffected_r = int (length results)\<rparr>))"
  using assms by (simp add: HandleInsert_def Let_def split: sum.split)

lemma node_unit_connection:
  "GetDBConnectionByToken node_unit 2000 (Token tokenA)
     = Inr (with_rows_affected (\<lambda>n. 1) (driver 0))"
  "GetDBConnectionByToken (node0\<lparr>IsPoolEnabled := False\<rparr>) 2000 (Token tokenA) = Inr (driver 0)"
  by (simp_all add: GetDBConnectionByToken_def node_unit_def node0_def)

text \<open>
  Claim C10, as stated: the \<open>rows_affected\<close> of a successful insert is never the sum
  of the rows-affected values the driver reports. With a driver that reports one
  affected row per statement, two records for two tables give \<open>rows_affected = 2\<close>,
  which is the sum of the two reported values.
\<close>

theorem rows_affected_can_equal_sum:
  "payload (HandleInsert node_unit 2000 (Some tokenA)
       (Some \<lparr>Records_i = [rec_t1, rec_t2], Queue = False, SameTable = False\<rparr>))
     = Some \<lparr>Results = [unit_tally, unit_tally], RowsAffected_r = 2\<rparr>
   \<and> sum_list (map RowsAffected [unit_tally, unit_tally]) = 2"
  using node_unit_connection(1)
  by (simp add: HandleInsert_routed success_def with_rows_affected_def driver_def tally7_def
        unit_tally_def)

text \<open>
  Claim C10, amended: for every successful insert, \<open>rows_affected\<close> equals the number
  of submitted records in the single-record and same-table cases and the number of
  tallies the driver returned in the heterogeneous case; the tallies in the response are
  the ones the driver returned. It is not computed from the rows-affected values the
  driver reports: a driver reporting other values gets the same status and the same
  \<open>rows_affected\<close>, and \<open>rows_affected\<close> equals the sum of the reported values only
  when that sum happens to be the count.
\<close>

theorem HandleInsert_rows_affected:
  assumes "GetDBConnectionByToken node now (Token t) = Inr db" and "Records_i req \<noteq> []"
  shows "(length (Records_i req) = 1 \<longrightarrow>
           answers_effect (HandleInsert node now (Some t) (Some req))
             (CallInsertOneDBRecord (Records_i req ! 0) (Queue req))
             (case Error (InsertOneDBRecord db (Records_i req ! 0) (Queue req)) of
                None \<Rightarrow> Inr [InsertOneDBRecord db (Records_i req ! 0) (Queue req)]
              | Some e \<Rightarrow> Inl e)
             1)
    \<and> (length (Records_i req) \<noteq> 1 \<and> SameTable req \<longrightarrow>
           answers_effect (HandleInsert node now (Some t) (Some req))
             (CallInsertManyDBRecordsSameTable (Records_i req) (Queue req))
             (InsertManyDBRecordsSameTable db (Records_i req) (Queue req))
             (int (length (Records_i req))))
    \<and> (length (Records_i req) \<noteq> 1 \<and> \<not> SameTable req \<longrightarrow>
           answers_effect (HandleInsert node now (Some t) (Some req))
             (CallInsertManyDBRecords (Records_i req) (Queue req))
             (InsertManyDBRecords db (Records_i req) (Queue req))
             (case InsertManyDBRecords db (Records_i req) (Queue req) of
                Inr results \<Rightarrow> int (length results) | Inl e \<Rightarrow> 0))
    \<and> (GetDBConnectionByToken node' now (Token t) = Inr (with_rows_affected f db) \<longrightarrow>
           Status (HandleInsert node' now (Some t) (Some req))
             = Status (HandleInsert node now (Some t) (Some req))
           \<and> map_option RowsAffected_r (payload (HandleInsert node' now (Some t) (Some req)))
             = map_option RowsAffected_r (payload (HandleInsert node now (Some t) (Some req))))
    \<and> (payload (HandleInsert node now (Some t) (Some req)) = Some resp \<longrightarrow>
           (RowsAffected_r resp = sum_list (map RowsAffected (Results resp))
            \<longleftrightarrow> sum_list (map RowsAffected (Results resp))
                  = (if length (Records_i req) = 1 \<or> SameTable req
                     then int (length (Records_i req)) else int (length (Results resp)))))"
proof (intro conjI impI)
  assume "GetDBConnectionByToken node' now (Token t) = Inr (with_rows_affected f db)"
  then show "Status (HandleInsert node' now (Some t) (Some req))
             = Status (HandleInsert node now (Some t) (Some req))"
    and "map_option RowsAffected_r (payload (HandleInsert node' now (Some t) (Some req)))
             = map_option RowsAffected_r (payload (HandleInsert node now (Some t) (Some req)))"
    using assms
    by (auto simp add: HandleInsert_routed with_rows_affected_def failure_def success_def
          split: sum.splits)
next
  assume "payload (HandleInsert node now (Some t) (Some req)) = Some resp"
  then show "RowsAffected_r resp = sum_list (map RowsAffected (Results resp))
            \<longleftrightarrow> sum_list (map RowsAffected (Results resp))
                  = (if length (Records_i req) = 1 \<or> SameTable req
                     then int (length (Records_i req)) else int (length (Results resp)))"
    using assms
    by (auto simp add: HandleInsert_routed failure_def success_def
          split: sum.splits if_splits)
qed (use assms in \<open>auto simp add: HandleInsert_routed answers_effect_def failure_def
       success_def split: sum.splits option.splits\<close>)

theorem HandleInsert_rows_affected_witness:
  "payload (HandleInsert (CurrentNode server1) 2000 (Some tokenA)
       (Some \<lparr>Records_i = [rec_t1], Queue = False, SameTable = False\<rparr>))
     = Some \<lparr>Results = [tally7], RowsAffected_r = 1\<rparr>
   \<and> payload (HandleInsert (CurrentNode server1) 2000 (Some tokenA)
       (Some \<lparr>Records_i = [rec_t1, rec_t1], Queue = False, SameTable = True\<rparr>))
     = Some \<lparr>Results = [tally7, tally7], RowsAffected_r = 2\<rparr>
   \<and> payload (HandleInsert (CurrentNode server1) 2000 (Some tokenA)
       (Some \<lparr>Records_i = [rec_t1, rec_t2], Queue = False, SameTable = False\<rparr>))
     = Some \<lparr>Results = [tally7, tally7], RowsAffected_r = 2\<rparr>
   \<and> sum_list (map RowsAffected [tally7, tally7]) = 14
   \<and> map_option RowsAffected_r (payload (HandleInsert node_unit 2000 (Some tokenA)
       (Some \<lparr>Records_i = [rec_t1, rec_t2], Queue = False, SameTable = False\<rparr>)))
     = map_option RowsAffected_r (payload (HandleInsert (node0\<lparr>IsPoolEnabled := False\<rparr>) 2000
       (Some tokenA) (Some \<lparr>Records_i = [rec_t1, rec_t2], Queue = False, SameTable = False\<rparr>)))"
proof -
  let ?one = "\<lparr>Records_i = [rec_t1], Queue = False, SameTable = False\<rparr>"
  let ?same = "\<lparr>Records_i = [rec_t1, rec_t1], Queue = False, SameTable = True\<rparr>"
  let ?two = "\<lparr>Records_i = [rec_t1, rec_t2], Queue = False, SameTable = False\<rparr>"
  have conn: "GetDBConnectionByToken (CurrentNode server1) 2000 (Token tokenA) = Inr (driver 1)"
    using tokA_connection by (simp add: tokenA_def)
  have "payload (HandleInsert (CurrentNode server1) 2000 (Some tokenA) (Some ?one))
          = Some \<lparr>Results = [tally7], RowsAffected_r = 1\<rparr>"
    using HandleInsert_rows_affected [OF conn, of ?one]
    by (simp add: answers_effect_def driver_def tally7_def)
  moreover have "payload (HandleInsert (CurrentNode server1) 2000 (Some tokenA) (Some ?same))
          = Some \<lparr>Results = [tally7, tally7], RowsAffected_r = 2\<rparr>"
    using HandleInsert_rows_affected [OF conn, of ?same]
    by (simp add: answers_effect_def driver_def tally7_def)
  moreover have "payload (HandleInsert (CurrentNode server1) 2000 (Some tokenA) (Some ?two))
          = Some \<lparr>Results = [tally7, tally7], RowsAffected_r = 2\<rparr>"
    using HandleInsert_rows_affected [OF conn, of ?two]
    by (simp add: answers_effect_def driver_def tally7_def)
  moreover have "map_option RowsAffected_r (payload (HandleInsert node_unit 2000 (Some tokenA)
            (Some ?two)))
     = map_option RowsAffected_r (payload (HandleInsert (node0\<lparr>IsPoolEnabled := False\<rparr>) 2000
            (Some tokenA) (Some ?two)))"
    using HandleInsert_rows_affected [OF node_unit_connection(2), of ?two node_unit "\<lambda>n. 1"]
          node_unit_connection(1)
    by simp
  ultimately show ?thesis by (simp add: tally7_def)
qed

section \<open>Session protocol: refresh\<close>

lemma close_old_connection_frame:
  "CurrentNode (close_old_connection now k s) = CurrentNode s"
  "TokenStore (close_old_connection now k s) = TokenStore s"
  by (simp_all add: close_old_connection_def Let_def split: sum.split)


lemmas refresh_unfold = HandleRefresh_def Let_def failure_def success_def
  createNewTokenResponse_def pool_put_def pool_delete_def close_old_connection_frame SaveToken_def


lemma HandleRefresh_success_pool:
  assumes "Status (fst (HandleRefresh now newToken newRefresh opened (Some req) s)) = 200"
    and "RefreshTokenExist now (Refresh req) (TokenStore s) = Some t"
  shows "\<exists>newDB. DBConnections (CurrentNode
            (snd (HandleRefresh now newToken newRefresh opened (Some req) s)))
           = Put now newToken 0 newDB (Delete (Token t) (DBConnections (CurrentNode s)))"
    and "IsPoolEnabled (CurrentNode
            (snd (HandleRefresh now newToken newRefresh opened (Some req) s)))"
  using assms
  by (auto simp add: refresh_unfold IsPoolAvailable_def split: option.splits sum.splits if_splits)

lemma HandleRefresh_success_store:
  assumes "Status (fst (HandleRefresh now newToken newRefresh opened (Some req) s)) = 200"
  shows "\<exists>t'. TokenMap (TokenStore
            (snd (HandleRefresh now newToken newRefresh opened (Some req) s)))
           = Put now newToken 0 t' (TokenMap (TokenStore s))"
    and "\<exists>m. RefreshTokenMap (TokenStore
            (snd (HandleRefresh now newToken newRefresh opened (Some req) s)))
           = Delete (Refresh req) m"
  using assms
  by (auto simp add: refresh_unfold split: option.splits sum.splits if_splits)

lemma refresh1_status:
  "Status (fst (HandleRefresh 2000 ''tokC'' ''refC'' (Inr (driver 3))
                  (Some (refresh_req ''refA'')) server1)) = 200"
  by (simp add: server1_eval eval_defs tokenA_def Minute_def)

lemma refresh1_live:
  "RefreshTokenExist 2000 (Refresh (refresh_req ''refA'')) (TokenStore server1) = Some tokenA"
  by (simp add: server1_eval eval_defs Minute_def)




text \<open>
  Claim C9. A successful refresh removes the old pool entry and the old refresh record
  but leaves the access-token map entry of the old access key as it was (the minted access
  key being a different string), so \<open>TokenExist\<close> on the old access key answers at every
  instant what it answered before the refresh, while the connection lookup for the old
  access key fails with \<open>ErrNoDBConnection\<close> and a query or insert presenting the old
  token is answered "Cannot get DB connection" without any driver call.
\<close>

theorem refresh_keeps_old_access_token:
  assumes "Status (fst (HandleRefresh now newToken newRefresh opened (Some req) s)) = 200"
    and "RefreshTokenExist now (Refresh req) (TokenStore s) = Some t"
    and "newToken \<noteq> Token t"
  shows "Get now' (Token t) (DBConnections (CurrentNode
            (snd (HandleRefresh now newToken newRefresh opened (Some req) s)))) = None
    \<and> RefreshTokenExist now' (Refresh req) (TokenStore
            (snd (HandleRefresh now newToken newRefresh opened (Some req) s))) = None
    \<and> TokenExist now' (Token t) (TokenStore
            (snd (HandleRefresh now newToken newRefresh opened (Some req) s)))
        = TokenExist now' (Token t) (TokenStore s)
    \<and> GetDBConnectionByToken (CurrentNode
            (snd (HandleRefresh now newToken newRefresh opened (Some req) s))) now' (Token t)
        = Inl ErrNoDBConnection
    \<and> (ValidateTableName (Table q) False = None \<longrightarrow>
         HandleQuery (CurrentNode (snd (HandleRefresh now newToken newRefresh opened (Some req) s)))
             now' (Some t) (Some q)
           = failure 500 ''Cannot get DB connection'' ''/query/'' [])
    \<and> (Records_i ins \<noteq> [] \<longrightarrow>
         HandleInsert (CurrentNode (snd (HandleRefresh now newToken newRefresh opened (Some req) s)))
             now' (Some t) (Some ins)
           = failure 500 ''Cannot get DB connection'' ''/insert/'' [])"
proof -
  let ?s' = "snd (HandleRefresh now newToken newRefresh opened (Some req) s)"
  from assms obtain newDB where pool: "DBConnections (CurrentNode ?s')
           = Put now newToken 0 newDB (Delete (Token t) (DBConnections (CurrentNode s)))"
    using HandleRefresh_success_pool(1) by blast
  have enabled: "IsPoolEnabled (CurrentNode ?s')"
    using assms HandleRefresh_success_pool(2) by blast
  from assms obtain t' where tm: "TokenMap (TokenStore ?s')
           = Put now newToken 0 t' (TokenMap (TokenStore s))"
    using HandleRefresh_success_store(1) by blast
  from assms obtain m where rm: "RefreshTokenMap (TokenStore ?s') = Delete (Refresh req) m"
    using HandleRefresh_success_store(2) by blast
  have gone: "Get now' (Token t) (DBConnections (CurrentNode ?s')) = None"
    using assms(3) by (simp add: pool Get_Put_other Get_Delete_same)
  have noconn: "GetDBConnectionByToken (CurrentNode ?s') now' (Token t) = Inl ErrNoDBConnection"
    by (simp add: GetDBConnectionByToken_def enabled gone)
  have "RefreshTokenExist now' (Refresh req) (TokenStore ?s') = None"
    by (simp add: RefreshTokenExist_def rm Get_Delete_same)
  moreover have "TokenExist now' (Token t) (TokenStore ?s')
                   = TokenExist now' (Token t) (TokenStore s)"
    using assms(3) by (simp add: TokenExist_def tm Get_Put_other)
  moreover have "ValidateTableName (Table q) False = None \<longrightarrow>
         HandleQuery (CurrentNode ?s') now' (Some t) (Some q)
           = failure 500 ''Cannot get DB connection'' ''/query/'' []"
    by (auto simp add: HandleQuery_def noconn ValidateTableName_def)
  moreover have "Records_i ins \<noteq> [] \<longrightarrow>
         HandleInsert (CurrentNode ?s') now' (Some t) (Some ins)
           = failure 500 ''Cannot get DB connection'' ''/insert/'' []"
    by (simp add: HandleInsert_def noconn)
  ultimately show ?thesis using gone noconn by blast
qed

theorem refresh_keeps_old_access_token_witness:
  "TokenExist 2000 ''tokA'' (TokenStore (snd (HandleRefresh 2000 ''tokC'' ''refC''
        (Inr (driver 3)) (Some (refresh_req ''refA'')) server1))) = Some tokenA
   \<and> RefreshTokenExist 2000 ''refA'' (TokenStore (snd (HandleRefresh 2000 ''tokC'' ''refC''
        (Inr (driver 3)) (Some (refresh_req ''refA'')) server1))) = None
   \<and> GetDBConnectionByToken (CurrentNode (snd (HandleRefresh 2000 ''tokC'' ''refC''
        (Inr (driver 3)) (Some (refresh_req ''refA'')) server1))) 2000 ''tokA''
       = Inl ErrNoDBConnection
   \<and> Status (HandleQuery (CurrentNode (snd (HandleRefresh 2000 ''tokC'' ''refC''
        (Inr (driver 3)) (Some (refresh_req ''refA'')) server1))) 2000 (Some tokenA)
        (Some \<lparr>Table = ''orders'', Condition_q = None, SingleRow = False\<rparr>)) = 500
   \<and> Status (HandleInsert (CurrentNode (snd (HandleRefresh 2000 ''tokC'' ''refC''
        (Inr (driver 3)) (Some (refresh_req ''refA'')) server1))) 2000 (Some tokenA)
        (Some \<lparr>Records_i = [rec_t1], Queue = False, SameTable = False\<rparr>)) = 500"
  using refresh_keeps_old_access_token [of 2000 "''tokC''" "''refC''" "Inr (driver 3)"
          "refresh_req ''refA''" server1 tokenA 2000
          "\<lparr>Table = ''orders'', Condition_q = None, SingleRow = False\<rparr>"
          "\<lparr>Records_i = [rec_t1], Queue = False, SameTable = False\<rparr>",
          OF refresh1_status refresh1_live]
        tokA_live orders_valid
  by (simp add: tokenA_def refresh_req_def failure_def)

section \<open>Session protocol: metrics, admission failure and token expiries\<close>

lemma wrong_password_step:
  "HandleConnect toy_hash now a r opened (Some alice_wrong) server0 =
     (failure 401 ''Invalid credentials'' ''/connect''
        [CallSelectOneWithCondition ''_users'' (username_condition ''alice'')], server0)"
  by (simp add: eval_defs)

lemma unknown_user_step:
  "HandleConnect toy_hash now a r opened (Some mallory_login) server0 =
     (failure 401 ''Invalid credentials'' ''/connect''
        [CallSelectOneWithCondition ''_users'' (username_condition ''mallory'')], server0)"
  by (simp add: eval_defs)

text \<open>Every connect answered 401 (unknown user or wrong password) leaves the whole
  state, the metrics included, as it was.\<close>

lemma HandleConnect_401_unchanged:
  "Status (fst (HandleConnect H now a r opened body s)) = 401 \<Longrightarrow>
     snd (HandleConnect H now a r opened body s) = s"
  by (auto simp add: HandleConnect_def Let_def failure_def success_def
        split: option.splits sum.splits prod.splits if_splits)

text \<open>
  Claim C3. Every failed authentication on \<^verbatim>\<open>/db/connect\<close>, a wrong password and an
  unknown username included, should bump both the attempts and the failures counter, so
  that ten wrong-password connects give 10 and 10. The handler returns on both paths
  before any call of \<^verbatim>\<open>RecordAuthentication\<close>: a connect with a wrong password answers
  401 and leaves the whole state as it was, so after ten of them (starting from fresh
  metrics) both counters still read 0; the same holds for an unknown user. The successful
  login that leads to \<open>server1\<close> is counted as one attempt and no failure.
\<close>

theorem failed_logins_not_counted:
  "Status (fst (HandleConnect toy_hash 1000 ''tokA'' ''refA'' (Inr (driver 1))
             (Some alice_wrong) server0)) = 401
   \<and> AuthenticationAttempts (Metrics
        (((\<lambda>s. snd (HandleConnect toy_hash 1000 ''tokA'' ''refA'' (Inr (driver 1))
                      (Some alice_wrong) s)) ^^ 10) server0)) = 0
   \<and> AuthenticationFailures (Metrics
        (((\<lambda>s. snd (HandleConnect toy_hash 1000 ''tokA'' ''refA'' (Inr (driver 1))
                      (Some alice_wrong) s)) ^^ 10) server0)) = 0
   \<and> Status (fst (HandleConnect toy_hash 1000 ''tokA'' ''refA'' (Inr (driver 1))
             (Some mallory_login) server0)) = 401
   \<and> Metrics (snd (HandleConnect toy_hash 1000 ''tokA'' ''refA'' (Inr (driver 1))
             (Some mallory_login) server0)) = InitMetrics
   \<and> AuthenticationAttempts (Metrics server1) = 1
   \<and> AuthenticationFailures (Metrics server1) = 0"
proof -
  have "((\<lambda>s. snd (HandleConnect toy_hash 1000 ''tokA'' ''refA''
          (Inr (driver 1)) (Some alice_wrong) s)) ^^ 10) server0 = server0"
    by (rule funpow_fixed) (simp add: wrong_password_step)
  then show ?thesis
    by (simp add: wrong_password_step unknown_user_step failure_def server1_eval)
       (simp add: server0_def InitMetrics_def)
qed

text \<open>
  Claim C4. When pool admission fails, the node should count a pool exhaustion, close the
  freshly opened driver and answer 406 (connect) or 503 (refresh), leaving no other session
  state behind. The status codes and the counter are as claimed, but the fresh driver is
  never closed and the token pair minted before the admission check stays in the token
  store. On connect: the pool of \<open>server1\<close> is full, a second login opens driver 2 and
  mints \<open>tokB\<close>/\<open>refB\<close>. On refresh: the pool of \<open>server3\<close> is full, a refresh with
  \<open>refA\<close> opens driver 3 and mints \<open>tokC\<close>/\<open>refC\<close>.
\<close>

theorem pool_full_leaves_state_behind:
  "(case HandleConnect toy_hash 2000 ''tokB'' ''refB'' (Inr (driver 2))
           (Some alice_login) server1 of
      (out, s') \<Rightarrow>
        Status out = 406
        \<and> PoolExhaustionCount (Metrics s') = PoolExhaustionCount (Metrics server1) + 1
        \<and> closed_drivers s' = closed_drivers server1
        \<and> 2 \<notin> set (closed_drivers s')
        \<and> TokenExist 2000 ''tokB'' (TokenStore s') \<noteq> None
        \<and> RefreshTokenExist 2000 ''refB'' (TokenStore s') \<noteq> None
        \<and> TokenExist 2000 ''tokB'' (TokenStore server1) = None)
   \<and> (case HandleRefresh 2000 ''tokC'' ''refC'' (Inr (driver 3))
           (Some (refresh_req ''refA'')) server3 of
      (out, s') \<Rightarrow>
        Status out = 503
        \<and> PoolExhaustionCount (Metrics s') = PoolExhaustionCount (Metrics server3) + 1
        \<and> closed_drivers s' = closed_drivers server3
        \<and> 3 \<notin> set (closed_drivers s')
        \<and> TokenExist 2000 ''tokC'' (TokenStore s') \<noteq> None
        \<and> RefreshTokenExist 2000 ''refC'' (TokenStore s') \<noteq> None
        \<and> TokenExist 2000 ''tokC'' (TokenStore server3) = None)"
  by (simp add: server1_eval server3_eval eval_defs tokenA_def tokenB_def Minute_def)

text \<open>
  Claim C5. A minted token record should carry access-expiry \<open>now +\<close> the configured
  token TTL and refresh-expiry \<open>now +\<close> the configured refresh TTL. The record is built
  from the built-in constants instead (24 h and 48 h after \<open>now\<close>, whatever the
  configuration says), while the token store expires the entry after the configured TTL:
  with a configured token TTL of 60 minutes the record minted at instant 1000 claims 24
  hours, and the access key is gone from the store 61 minutes later.
\<close>

theorem createNewTokenResponse_ignores_config:
  "TokenExpiresAt (fst (createNewTokenResponse now a r u s)) = now + 24 * 60 * Minute
   \<and> RefreshExpiresAt (fst (createNewTokenResponse now a r u s)) = now + 48 * 60 * Minute
   \<and> TokenExp (Config (CurrentNode server0)) = 60 * Minute
   \<and> TokenExpiresAt (fst (createNewTokenResponse 1000 ''tokA'' ''refA'' u server0))
        \<noteq> 1000 + TokenExp (Config (CurrentNode server0))
   \<and> TokenExist (1000 + 61 * Minute) ''tokA''
        (TokenStore (snd (createNewTokenResponse 1000 ''tokA'' ''refA'' u server0))) = None"
  by (simp add: eval_defs DEFAULT_TOKEN_EXPIRES_MINUTES_def
        DEFAULT_REFRESH_EXPIRES_MINUTES_def Minute_def)

section \<open>Observability: health scoring and alert cooldown\<close>

text \<open>
  Claim C7, as stated: the failure-rate rules of the health score apply only from 10
  authentication attempts (10 executed queries) on. They apply from the first one: after a
  single failed authentication the status is \<open>degraded\<close>, and after a single failed
  query it is \<open>unhealthy\<close>.
\<close>

theorem one_failure_changes_health:
  "unat (AuthenticationAttempts (Metrics db_down_once)) = 1
   \<and> fst (GetHealthStatus db_down_once) = ''degraded''
   \<and> fst (GetHealthStatus server0) = ''healthy''
   \<and> unat (QueriesExecuted (RecordQuery False InitMetrics)) = 1
   \<and> fst (GetHealthStatus (server0\<lparr>Metrics := RecordQuery False InitMetrics\<rparr>)) = ''unhealthy''"
  by (simp add: GetHealthStatus_def db_down_once_def eval_defs failure_rate_def
        ConnectionPoolUsagePct_def percent_values)

text \<open>With \<open>2^63 + 1\<close> failures out of \<open>2^64 - 1\<close> attempts the rounded rate is
  exactly 50, which is not above the threshold: the status stays \<open>healthy\<close>.\<close>

lemma rounded_rate_is_not_high:
  "fst (GetHealthStatus (server0\<lparr>Metrics := InitMetrics
          \<lparr>AuthenticationAttempts := 18446744073709551615,
           AuthenticationFailures := 9223372036854775809\<rparr>\<rparr>)) = ''healthy''"
  by (simp add: GetHealthStatus_def Let_def failure_rate_rounds ConnectionPoolUsagePct_def
        percent_values server0_def node0_def driver_def ttl_defs InitMetrics_def)

text \<open>
  Claim C7, amended: the health score reports the high authentication-failure rate
  (above 50 percent) whenever at least one attempt has been recorded and the high
  query-failure rate (above 10 percent) whenever at least one query has been executed;
  with no attempt (no query) recorded the rule does not fire. The rate is the
  \<^verbatim>\<open>float64\<close> quotient of the two counters times 100, as the code computes it. The
  status is \<open>unhealthy\<close> when the internal driver is disconnected or the query rule
  fires, otherwise \<open>degraded\<close> when pool usage is at least 90 percent or the
  authentication rule fires, otherwise \<open>healthy\<close>.
\<close>

theorem GetHealthStatus_rate_rules:
  "fst (GetHealthStatus s) =
     (if \<not> IsConnected (InternalConnection (CurrentNode s))
         \<or> (QueriesExecuted (Metrics s) > 0
             \<and> failure_rate (QueriesFailed (Metrics s)) (QueriesExecuted (Metrics s)) > 10)
      then ''unhealthy''
      else if ConnectionPoolUsagePct (CurrentNode s) \<ge> 90
         \<or> (AuthenticationAttempts (Metrics s) > 0
             \<and> failure_rate (AuthenticationFailures (Metrics s))
                  (AuthenticationAttempts (Metrics s)) > 50)
      then ''degraded'' else ''healthy'')
   \<and> (''high authentication failure rate'' \<in> set (snd (GetHealthStatus s))
      \<longleftrightarrow> AuthenticationAttempts (Metrics s) > 0
          \<and> failure_rate (AuthenticationFailures (Metrics s))
                  (AuthenticationAttempts (Metrics s)) > 50)
   \<and> (''high query failure rate'' \<in> set (snd (GetHealthStatus s))
      \<longleftrightarrow> QueriesExecuted (Metrics s) > 0
          \<and> failure_rate (QueriesFailed (Metrics s)) (QueriesExecuted (Metrics s)) > 10)"
  by (simp add: GetHealthStatus_def Let_def)

theorem GetHealthStatus_rate_rules_witness:
  "fst (GetHealthStatus two_of_three) = ''degraded''
   \<and> ''high authentication failure rate'' \<in> set (snd (GetHealthStatus two_of_three))
   \<and> ''high query failure rate'' \<notin> set (snd (GetHealthStatus two_of_three))"
  using GetHealthStatus_rate_rules [of two_of_three]
  using percent_two_thirds
  by (simp add: two_of_three_def failure_rate_def ConnectionPoolUsagePct_def
        server0_def node0_def driver_def ttl_defs InitMetrics_def percent_values)

lemma under_attack_eval:
  "Len (DBConnections (CurrentNode under_attack)) = 1" "MaxPool (CurrentNode under_attack) = 1"
  "PoolExhaustionCount (Metrics under_attack) = 1"
  "LastPoolExhaustion (Metrics under_attack) = 999 * Minute"
  "AuthenticationAttempts (Metrics under_attack) = 10"
  "AuthenticationFailures (Metrics under_attack) = 10"
  "QueriesExecuted (Metrics under_attack) = 10"
  "QueriesFailed (Metrics under_attack) = 5"
  by (simp_all add: under_attack_def server1_eval node0_def Len_def)

lemmas alert_defs = checkSystemHealth_def checkConnectionPool_def checkAuthenticationFailures_def
  checkQueryFailures_def CreateAlert_def NewAlertManager_def Since_def failure_rate_def
  percent_values

text \<open>The two pool-usage bands do honour the cooldown: a check made while the cooldown
  of a band has not elapsed adds no alert of that band and keeps its last-fired instant.\<close>

lemma CreateAlert_alerts:
  "a \<in> set (alerts (CreateAlert now lv ti am)) \<Longrightarrow>
     a \<in> set (alerts am) \<or> (Title a = ti \<and> Timestamp a = now)"
  by (auto simp add: CreateAlert_def Let_def split: if_splits dest: in_set_dropD)

lemma CreateAlert_last:
  "lastPoolCritical (CreateAlert now lv ti am) = lastPoolCritical am"
  "lastPoolWarning (CreateAlert now lv ti am) = lastPoolWarning am"
  "alertCooldown (CreateAlert now lv ti am) = alertCooldown am"
  by (simp_all add: CreateAlert_def Let_def)

lemma pool_critical_cooldown:
  assumes "Since now (lastPoolCritical am) \<le> alertCooldown am"
    and "a \<in> set (alerts (checkSystemHealth now s am))"
    and "Title a = ''Connection Pool Critical''"
  shows "a \<in> set (alerts am)"
    and "lastPoolCritical (checkSystemHealth now s am) = lastPoolCritical am"
  using assms
  by (auto simp add: checkSystemHealth_def checkConnectionPool_def checkAuthenticationFailures_def
        checkQueryFailures_def Let_def CreateAlert_last
        split: if_splits dest!: CreateAlert_alerts)

lemma pool_warning_cooldown:
  assumes "Since now (lastPoolWarning am) \<le> alertCooldown am"
    and "a \<in> set (alerts (checkSystemHealth now s am))"
    and "Title a = ''Connection Pool High Usage''"
  shows "a \<in> set (alerts am)"
    and "lastPoolWarning (checkSystemHealth now s am) = lastPoolWarning am"
  using assms
  by (auto simp add: checkSystemHealth_def checkConnectionPool_def checkAuthenticationFailures_def
        checkQueryFailures_def Let_def CreateAlert_last
        split: if_splits dest!: CreateAlert_alerts)

text \<open>
  Claim C8. No alert rule should fire twice for the same band within its 5-minute
  cooldown. Only the two pool-usage bands keep a last-fired instant; the pool-exhaustion,
  authentication-failure and query-failure rules have none. With the conditions of
  \<open>under_attack\<close> persisting, the check at instant \<open>1000 * Minute\<close> fires all four
  rules, and the next check, 30 seconds later, fires the last three again while the
  pool-usage rule stays silent.
\<close>

theorem alerts_repeat_within_cooldown:
  "map Title (alerts (checkSystemHealth (1000 * Minute) under_attack NewAlertManager))
     = [''Connection Pool Critical'', ''Connection Pool Exhaustion'',
        ''High Authentication Failure Rate'', ''High Query Failure Rate'']
   \<and> map (\<lambda>a. (Title a, Timestamp a))
        (alerts (checkSystemHealth (1000 * Minute + checkInterval NewAlertManager) under_attack
                  (checkSystemHealth (1000 * Minute) under_attack NewAlertManager)))
     = [(''Connection Pool Critical'', 1000 * Minute),
        (''Connection Pool Exhaustion'', 1000 * Minute),
        (''High Authentication Failure Rate'', 1000 * Minute),
        (''High Query Failure Rate'', 1000 * Minute),
        (''Connection Pool Exhaustion'', 1000 * Minute + 30 * 1000000000),
        (''High Authentication Failure Rate'', 1000 * Minute + 30 * 1000000000),
        (''High Query Failure Rate'', 1000 * Minute + 30 * 1000000000)]
   \<and> checkInterval NewAlertManager < alertCooldown NewAlertManager"
  by (simp add: alert_defs under_attack_eval Let_def Minute_def)

end
